theory Spec2Isabelle
  imports Complex_Main "HOL-Library.AList" "HOL-Library.Sublist" "HOL-Library.Multiset"
begin

section \<open>Go strings and the library functions the pipeline calls\<close>

text \<open>
  A Go \<^verbatim>\<open>string\<close> is a sequence of bytes, and so is a HOL \<^typ>\<open>string\<close>.  The library
  functions used by \<^verbatim>\<open>app.go\<close> (\<^verbatim>\<open>strings.TrimSpace\<close>, \<^verbatim>\<open>strings.ReplaceAll\<close>,
  \<^verbatim>\<open>strings.Split\<close>, \<^verbatim>\<open>url.QueryEscape\<close>, the three regular expressions, \<^verbatim>\<open>%d\<close>) are
  written out here on bytes.  The character classes \<^verbatim>\<open>\d\<close>, \<^verbatim>\<open>\w\<close> and \<^verbatim>\<open>\s\<close> of Go's
  \<^verbatim>\<open>regexp\<close> are ASCII only, so a byte of a multi-byte UTF-8 sequence is in none of them.
\<close>

definition quoted :: "string \<Rightarrow> string" where
  \<comment> \<open>\<^verbatim>\<open>'%s'\<close> of a format string\<close>
  "quoted s = [CHR 0x27] @ s @ [CHR 0x27]"

definition digit_char :: "nat \<Rightarrow> char" where
  "digit_char d = char_of (of_char CHR ''0'' + d)"

function dec_digits :: "int \<Rightarrow> string" where
  \<comment> \<open>the decimal digits of a number that is not negative\<close>
  "dec_digits n =
     (if n < 10 then [digit_char (nat n)]
      else dec_digits (n div 10) @ [digit_char (nat (n mod 10))])"
  by pat_completeness auto
termination
proof (relation "measure nat")
  show "wf (measure nat)" by simp
next
  fix n :: int
  assume large: "\<not> n < 10"
  then have "n div 10 < n" by (simp add: zdiv_mono2)
  with large show "(n div 10, n) \<in> measure nat" by simp
qed

declare dec_digits.simps [simp del]

definition dec_int :: "int \<Rightarrow> string" where
  \<comment> \<open>\<^verbatim>\<open>%d\<close>\<close>
  "dec_int i = (if i < 0 then CHR ''-'' # dec_digits (- i) else dec_digits i)"

definition in_range :: "char \<Rightarrow> char \<Rightarrow> char \<Rightarrow> bool" where
  "in_range lo hi c \<longleftrightarrow> (of_char lo :: nat) \<le> of_char c \<and> (of_char c :: nat) \<le> of_char hi"

definition is_digit :: "char \<Rightarrow> bool" where
  \<comment> \<open>\<^verbatim>\<open>\d\<close>\<close>
  "is_digit c \<longleftrightarrow> in_range CHR ''0'' CHR ''9'' c"

definition is_alpha :: "char \<Rightarrow> bool" where
  "is_alpha c \<longleftrightarrow> in_range CHR ''a'' CHR ''z'' c \<or> in_range CHR ''A'' CHR ''Z'' c"

definition is_word :: "char \<Rightarrow> bool" where
  \<comment> \<open>\<^verbatim>\<open>\w\<close>, that is \<^verbatim>\<open>[0-9A-Za-z_]\<close>\<close>
  "is_word c \<longleftrightarrow> is_digit c \<or> is_alpha c \<or> c = CHR ''_''"

definition re_space :: "char \<Rightarrow> bool" where
  \<comment> \<open>\<^verbatim>\<open>\s\<close>, that is \<^verbatim>\<open>[\t\n\f\r ]\<close>\<close>
  "re_space c \<longleftrightarrow> c \<in> set [CHR 0x09, CHR 0x0A, CHR 0x0C, CHR 0x0D, CHR 0x20]"

definition unicode_spaces :: "string list" where
  \<comment> \<open>the UTF-8 encodings of the runes for which \<^verbatim>\<open>unicode.IsSpace\<close> holds\<close>
  "unicode_spaces =
     [[CHR 0x09], [CHR 0x0A], [CHR 0x0B], [CHR 0x0C], [CHR 0x0D], [CHR 0x20],
      [CHR 0xC2, CHR 0x85], [CHR 0xC2, CHR 0xA0], [CHR 0xE1, CHR 0x9A, CHR 0x80],
      [CHR 0xE2, CHR 0x80, CHR 0x80], [CHR 0xE2, CHR 0x80, CHR 0x81],
      [CHR 0xE2, CHR 0x80, CHR 0x82], [CHR 0xE2, CHR 0x80, CHR 0x83],
      [CHR 0xE2, CHR 0x80, CHR 0x84], [CHR 0xE2, CHR 0x80, CHR 0x85],
      [CHR 0xE2, CHR 0x80, CHR 0x86], [CHR 0xE2, CHR 0x80, CHR 0x87],
      [CHR 0xE2, CHR 0x80, CHR 0x88], [CHR 0xE2, CHR 0x80, CHR 0x89],
      [CHR 0xE2, CHR 0x80, CHR 0x8A], [CHR 0xE2, CHR 0x80, CHR 0xA8],
      [CHR 0xE2, CHR 0x80, CHR 0xA9], [CHR 0xE2, CHR 0x80, CHR 0xAF],
      [CHR 0xE2, CHR 0x81, CHR 0x9F], [CHR 0xE3, CHR 0x80, CHR 0x80]]"

definition space_len :: "string list \<Rightarrow> string \<Rightarrow> nat" where
  \<comment> \<open>the width of the white-space rune the string starts with, 0 when it starts with none\<close>
  "space_len pats s = (case find (\<lambda>p. prefix p s) pats of None \<Rightarrow> 0 | Some p \<Rightarrow> length p)"

function trim_left :: "string list \<Rightarrow> string \<Rightarrow> string" where
  "trim_left pats s =
     (if space_len pats s = 0 then s else trim_left pats (drop (space_len pats s) s))"
  by pat_completeness auto
termination
proof (relation "measure (\<lambda>(pats, s). length s)")
  show "wf (measure (\<lambda>(pats, s). length s))" by simp
next
  fix pats :: "string list" and s :: string
  assume pos: "space_len pats s \<noteq> 0"
  then obtain p where p: "find (\<lambda>p. prefix p s) pats = Some p" "p \<noteq> []"
    by (auto simp: space_len_def split: option.splits)
  then have "prefix p s"
    by (auto simp: find_Some_iff)
  with p have "s \<noteq> []" by auto
  with pos show "((pats, drop (space_len pats s) s), (pats, s)) \<in> measure (\<lambda>(pats, s). length s)"
    by simp
qed

declare trim_left.simps [simp del]

definition TrimSpace :: "string \<Rightarrow> string" where
  \<comment> \<open>\<^verbatim>\<open>strings.TrimSpace\<close>: leading white-space runes are cut first, trailing ones next\<close>
  "TrimSpace s = rev (trim_left (map rev unicode_spaces) (rev (trim_left unicode_spaces s)))"

fun ReplaceAll :: "string \<Rightarrow> string \<Rightarrow> string \<Rightarrow> string" where
  \<comment> \<open>\<^verbatim>\<open>strings.ReplaceAll\<close>; every call of the source has a non-empty \<^verbatim>\<open>old\<close>\<close>
  "ReplaceAll [] old new = []"
| "ReplaceAll (c # cs) old new =
     (if old \<noteq> [] \<and> prefix old (c # cs)
      then new @ ReplaceAll (drop (length old - 1) cs) old new
      else c # ReplaceAll cs old new)"

fun collapse_from :: "bool \<Rightarrow> string \<Rightarrow> string" where
  \<comment> \<open>the flag says that the byte before was white space, already replaced\<close>
  "collapse_from in_run [] = []"
| "collapse_from in_run (c # cs) =
     (if re_space c then (if in_run then collapse_from True cs else CHR '' '' # collapse_from True cs)
      else c # collapse_from False cs)"

definition collapse_space :: "string \<Rightarrow> string" where
  \<comment> \<open>\<^verbatim>\<open>regexp.MustCompile(`\s+`).ReplaceAllString(s, " ")\<close>: each maximal run of white
      space becomes one space\<close>
  "collapse_space s = collapse_from False s"

definition strip_special :: "string \<Rightarrow> string" where
  \<comment> \<open>\<^verbatim>\<open>regexp.MustCompile(`[^\w\s]`).ReplaceAllString(s, "")\<close>\<close>
  "strip_special s = filter (\<lambda>c. is_word c \<or> re_space c) s"

definition year_match :: "string \<Rightarrow> string option" where
  \<comment> \<open>\<^verbatim>\<open>yearRegex.FindStringSubmatch\<close> for \<^verbatim>\<open>\((\d{4})\)$\<close>: the first group of the only
      place the pattern can match, the last six bytes\<close>
  "year_match s =
     (let n = length s; t = drop (n - 6) s
      in if 6 \<le> n \<and> hd t = CHR ''('' \<and> last t = CHR '')'' \<and> list_all is_digit (take 4 (tl t))
         then Some (take 4 (tl t)) else None)"

definition year_remove :: "string \<Rightarrow> string" where
  \<comment> \<open>\<^verbatim>\<open>yearRegex.ReplaceAllString(s, "")\<close>\<close>
  "year_remove s = (if year_match s = None then s else take (length s - 6) s)"

definition hex_char :: "nat \<Rightarrow> char" where
  "hex_char d = (''0123456789ABCDEF'' ! d)"

definition unreserved :: "char \<Rightarrow> bool" where
  "unreserved c \<longleftrightarrow> is_digit c \<or> is_alpha c \<or> c \<in> set ''-_.~''"

definition QueryEscape :: "string \<Rightarrow> string" where
  \<comment> \<open>\<^verbatim>\<open>url.QueryEscape\<close>\<close>
  "QueryEscape s = concat (map (\<lambda>c.
      if unreserved c then [c]
      else if c = CHR '' '' then ''+''
      else [CHR ''%'', hex_char (of_char c div 16), hex_char (of_char c mod 16)]) s)"

definition first_segment :: "string \<Rightarrow> string" where
  \<comment> \<open>\<^verbatim>\<open>strings.Split(s, "-")[0]\<close>\<close>
  "first_segment s = takeWhile (\<lambda>c. c \<noteq> CHR ''-'') s"


section \<open>Go maps, channels and the order in which they are read\<close>

text \<open>
  A Go map is an association list with distinct keys: \<^verbatim>\<open>m[k] = v\<close> is \<^const>\<open>AList.update\<close>,
  a lookup is \<^const>\<open>map_of\<close>, \<^verbatim>\<open>len(m)\<close> is \<^const>\<open>length\<close>.  The order of a
  \<^verbatim>\<open>range\<close> over a map is chosen by the runtime, and so is the order in which the goroutines
  deliver their results to the channel.  Both choices are inputs of the model: a rank function,
  and the entries are visited by increasing rank.  Every rank function gives an order in which
  each entry occurs once, and every such order is given by a rank function (lemmas
  \<open>mset_range_map\<close>, \<open>range_map_any_order\<close>, \<open>mset_arrive\<close> and \<open>arrive_any_order\<close>).
\<close>

type_synonym ('k, 'v) gomap = "('k \<times> 'v) list"

definition range_map :: "('k \<Rightarrow> nat) \<Rightarrow> ('k, 'v) gomap \<Rightarrow> ('k \<times> 'v) list" where
  "range_map rank m = sort_key (\<lambda>kv. rank (fst kv)) m"

definition arrive :: "(nat \<Rightarrow> nat) \<Rightarrow> 'a list \<Rightarrow> 'a list" where
  \<comment> \<open>the results of the goroutines, launched in list order, in the order they are received\<close>
  "arrive rank xs = map snd (sort_key (\<lambda>ix. rank (fst ix)) (enumerate 0 xs))"

definition position :: "'a list \<Rightarrow> 'a \<Rightarrow> nat" where
  \<comment> \<open>the place of the first occurrence: the rank that gives a chosen order\<close>
  "position xs x = length (takeWhile (\<lambda>y. y \<noteq> x) xs)"

section \<open>The data model of \<^verbatim>\<open>app.go\<close>\<close>

text \<open>
  A Go slice is \<^verbatim>\<open>nil\<close> or holds a list.  The two differ when the record is handed to the
  frontend: \<^verbatim>\<open>encoding/json\<close> writes a \<^verbatim>\<open>nil\<close> slice as \<^verbatim>\<open>null\<close> and an empty one as
  \<^verbatim>\<open>[]\<close>.  \<^verbatim>\<open>append\<close> to either gives a slice that is not \<^verbatim>\<open>nil\<close>.
\<close>

datatype 'a slice = NilSlice | Slice "'a list"

fun elems :: "'a slice \<Rightarrow> 'a list" where
  "elems NilSlice = []"
| "elems (Slice xs) = xs"

definition append_slice :: "'a slice \<Rightarrow> 'a \<Rightarrow> 'a slice" where
  \<comment> \<open>\<^verbatim>\<open>append(s, x)\<close>\<close>
  "append_slice s x = Slice (elems s @ [x])"

datatype Person = Person (Name: string) (ID: int)

datatype User = User (user_Name: string) (Avatar: string)

record Movie =
  Title :: string
  URL :: string
  Rating :: real
  FormattedRating :: string
  PosterURL :: string
  BackdropURL :: string
  LogoURL :: string
  ReleaseDate :: string
  ReleaseYear :: string
  Runtime :: int
  FormattedRuntime :: string
  Genres :: "string slice"
  IMDBID :: string
  Overview :: string
  Director :: Person
  Cast :: "Person slice"
  Users :: "User slice"
  Count :: int

text \<open>
  \<^verbatim>\<open>Rating\<close> is a \<^verbatim>\<open>float64\<close> that is either the constant 0 or a number decoded from JSON, which
  has no NaN and no infinity: the value is a real number, and \<^verbatim>\<open>>\<close> on it is the order of
  the reals.  The slices decoded from the provider's JSON are only ranged over, and are lists.
\<close>

definition zero_Movie :: Movie where
  \<comment> \<open>\<^verbatim>\<open>var movie Movie\<close>\<close>
  "zero_Movie = \<lparr>Title = [], URL = [], Rating = 0, FormattedRating = [], PosterURL = [],
     BackdropURL = [], LogoURL = [], ReleaseDate = [], ReleaseYear = [], Runtime = 0,
     FormattedRuntime = [], Genres = NilSlice, IMDBID = [], Overview = [],
     Director = Person [] 0, Cast = NilSlice, Users = NilSlice, Count = 0\<rparr>"

datatype CrewMember = CrewMember (crew_Name: string) (Job: string) (crew_ID: int)

datatype CastMember = CastMember (cast_Name: string) (cast_ID: int)

datatype Logo = Logo (FilePath: string) (ISO6391: "string option")

record TMDBMovie =
  tmdb_ID :: int
  VoteAverage :: real
  PosterPath :: string
  BackdropPath :: string
  tmdb_ReleaseDate :: string
  tmdb_Runtime :: int
  tmdb_Genres :: "string list"
  tmdb_IMDBID :: string
  tmdb_Overview :: string
  Credits_Crew :: "CrewMember list"
  Credits_Cast :: "CastMember list"
  Images_Logos :: "Logo list"

definition zero_TMDBMovie :: TMDBMovie where
  \<comment> \<open>\<^verbatim>\<open>var tmdbData TMDBMovie\<close>\<close>
  "zero_TMDBMovie = \<lparr>tmdb_ID = 0, VoteAverage = 0, PosterPath = [], BackdropPath = [],
     tmdb_ReleaseDate = [], tmdb_Runtime = 0, tmdb_Genres = [], tmdb_IMDBID = [],
     tmdb_Overview = [], Credits_Crew = [], Credits_Cast = [], Images_Logos = []\<rparr>"

section \<open>The outside world\<close>

text \<open>
  What the collector finds on a profile page and on the pages of a watchlist, what the
  metadata provider answers, and the environment variable, are inputs.  An error value is its
  message.  The answer of the provider may depend on everything requested before, so that a
  second request of one URL may be answered differently; the requests and the pauses of
  \<^verbatim>\<open>GetTMDBDetails\<close> are recorded in a trace.
\<close>

record profile_scrape =
  profile_visitErr :: "string option"  \<comment> \<open>what \<^verbatim>\<open>c.Visit\<close> returns\<close>
  profile_onError :: "string option"  \<comment> \<open>the error handed to \<^verbatim>\<open>OnError\<close>, if it was called\<close>
  og_images :: "string list"  \<comment> \<open>the \<^verbatim>\<open>content\<close> of each \<^verbatim>\<open>meta[property='og:image']\<close>\<close>

record watchlist_scrape =
  watchlist_visitErr :: "string option"
  watchlist_onError :: "string option"  \<comment> \<open>the last error handed to \<^verbatim>\<open>OnError\<close>\<close>
  posters :: "(string \<times> string) list"
    \<comment> \<open>\<^verbatim>\<open>data-target-link\<close> and \<^verbatim>\<open>alt\<close> of each \<^verbatim>\<open>li.poster-container\<close>, over all pages followed\<close>

record body =
  search_json :: "string + int list"
    \<comment> \<open>decoding into \<^verbatim>\<open>TMDBSearchResult\<close>: the error, or the \<^verbatim>\<open>ID\<close>s of \<^verbatim>\<open>Results\<close>\<close>
  details_json :: "string + TMDBMovie"  \<comment> \<open>decoding into \<^verbatim>\<open>TMDBMovie\<close>\<close>

datatype http_result = NetError string | Response int body

datatype event = Get string | Sleep nat

record world =
  env_TMDB_API_KEY :: string  \<comment> \<open>\<^verbatim>\<open>os.Getenv("TMDB_API_KEY")\<close>\<close>
  profile_page :: "string \<Rightarrow> profile_scrape"
  watchlist_pages :: "string \<Rightarrow> watchlist_scrape"
  provider :: "event list \<Rightarrow> string \<Rightarrow> http_result"
  fmt_1f :: "real \<Rightarrow> string"  \<comment> \<open>\<^verbatim>\<open>fmt.Sprintf("%.1f", x)\<close>, taken as given\<close>

record schedule =
  arrival_rank :: "nat \<Rightarrow> nat"  \<comment> \<open>of the goroutine for \<^verbatim>\<open>usernames[i]\<close>\<close>
  users_rank :: "string \<Rightarrow> nat"  \<comment> \<open>\<^verbatim>\<open>range scrapedData\<close>\<close>
  titles_rank :: "string \<Rightarrow> string \<Rightarrow> nat"  \<comment> \<open>\<^verbatim>\<open>range watchlist\<close>, for each user\<close>
  counts_rank :: "string \<Rightarrow> nat"  \<comment> \<open>\<^verbatim>\<open>range movieCounts\<close>\<close>
  replacements_rank :: "string \<Rightarrow> string \<Rightarrow> nat"
    \<comment> \<open>\<^verbatim>\<open>range commonReplacements\<close>, for each title resolved\<close>

record App =
  runtimeAPIKey :: string

definition http_Get :: "world \<Rightarrow> event list \<Rightarrow> string \<Rightarrow> http_result \<times> event list" where
  "http_Get w tr url = (provider w tr url, tr @ [Get url])"

definition time_Sleep :: "nat \<Rightarrow> event list \<Rightarrow> event list" where
  \<comment> \<open>the argument is in milliseconds\<close>
  "time_Sleep ms tr = tr @ [Sleep ms]"

section \<open>\<^verbatim>\<open>config.go\<close> and the API key\<close>

definition GetTMDBAPIKey :: "world \<Rightarrow> string" where
  "GetTMDBAPIKey w =
     (let key = env_TMDB_API_KEY w in if key = [] then ''YOUR_API_KEY_HERE'' else key)"

definition getTMDBAPIKey :: "App \<Rightarrow> world \<Rightarrow> string" where
  "getTMDBAPIKey a w = (if runtimeAPIKey a \<noteq> [] then runtimeAPIKey a else GetTMDBAPIKey w)"

section \<open>\<^verbatim>\<open>GetUserAvatar\<close> and \<^verbatim>\<open>GetWatchlist\<close>\<close>

definition GetUserAvatar :: "world \<Rightarrow> string \<Rightarrow> string + string" where
  "GetUserAvatar w username =
     (let p = profile_page w username;
          avatarURL = fold (\<lambda>content url. if content \<noteq> [] then content else url) (og_images p) []
      in case profile_visitErr p of
           Some visitErr \<Rightarrow>
             Inl (''could not visit profile for '' @ quoted username @ '': '' @ visitErr)
         | None \<Rightarrow>
            (case profile_onError p of
               Some e \<Rightarrow> Inl (''could not fetch profile for '' @ quoted username @ '': '' @ e)
             | None \<Rightarrow>
                 if avatarURL = [] then Inl (''could not find avatar for user '' @ quoted username)
                 else Inr avatarURL))"

definition extract_movies :: "(string \<times> string) list \<Rightarrow> (string, string) gomap" where
  \<comment> \<open>the map \<^verbatim>\<open>movies\<close> after the callback has run on every poster\<close>
  "extract_movies ps =
     fold (\<lambda>(posterDiv, img) movies.
             if img \<noteq> [] \<and> posterDiv \<noteq> []
             then AList.update img (''https://letterboxd.com'' @ posterDiv) movies
             else movies) ps []"

definition GetWatchlist :: "world \<Rightarrow> string \<Rightarrow> string + (string, string) gomap" where
  "GetWatchlist w username =
     (let p = watchlist_pages w username;
          movies = extract_movies (posters p)
      in case watchlist_visitErr p of
           Some err \<Rightarrow>
             Inl (''could not visit watchlist for '' @ quoted username @ '': '' @ err)
         | None \<Rightarrow>
            (case watchlist_onError p of
               Some scrapeErr \<Rightarrow> Inl scrapeErr
             | None \<Rightarrow>
                 if length movies = 0
                 then Inl (''no movies found in watchlist for '' @ quoted username)
                 else Inr movies))"

section \<open>\<^verbatim>\<open>GetTMDBDetails\<close>\<close>

definition commonReplacements :: "(string, string) gomap" where
  "commonReplacements = [(''&'', ''and''), ([CHR 0x27], []), (''-'', '' ''), ('':'', [])]"

definition altTitle_of :: "(string \<Rightarrow> nat) \<Rightarrow> string \<Rightarrow> string" where
  "altTitle_of rank movieTitle =
     (let altTitle = fold (\<lambda>(old, new) altTitle. ReplaceAll altTitle old new)
                       (range_map rank commonReplacements) movieTitle
      in collapse_space (TrimSpace altTitle))"

definition searchVariations :: "(string \<Rightarrow> nat) \<Rightarrow> string \<Rightarrow> string list" where
  \<comment> \<open>of the title the year has been cut from\<close>
  "searchVariations rank movieTitle =
     (let cleanTitle = strip_special movieTitle;
          altTitle = altTitle_of rank movieTitle
      in [movieTitle]
         @ (if cleanTitle \<noteq> movieTitle then [cleanTitle] else [])
         @ (if altTitle \<noteq> movieTitle then [altTitle] else []))"

definition extract_year :: "string \<Rightarrow> string \<times> string" where
  \<comment> \<open>\<^verbatim>\<open>year\<close> and \<^verbatim>\<open>movieTitle\<close> after the first \<^verbatim>\<open>if\<close>\<close>
  "extract_year movieTitle =
     (case year_match movieTitle of
        Some year \<Rightarrow> (year, TrimSpace (year_remove movieTitle))
      | None \<Rightarrow> ([], movieTitle))"

definition searchURL_of :: "string \<Rightarrow> string \<Rightarrow> string \<Rightarrow> string" where
  "searchURL_of apiKey year searchTitle =
     ''https://api.themoviedb.org/3/search/movie?api_key='' @ apiKey @ ''&query=''
       @ QueryEscape searchTitle @ (if year \<noteq> [] then ''&year='' @ year else [])"

definition decode_search :: "http_result \<Rightarrow> string + int list" where
  \<comment> \<open>the status check and the decoding of one iteration\<close>
  "decode_search r =
     (case r of
        NetError err \<Rightarrow> Inl err
      | Response status b \<Rightarrow>
          if status \<noteq> 200 then Inl (''API error: status code '' @ dec_int status)
          else (case search_json b of
                  Inl err \<Rightarrow> Inl (''parse error: '' @ err)
                | Inr results \<Rightarrow> Inr results))"

definition pace :: "nat \<Rightarrow> event list \<Rightarrow> event list" where
  \<comment> \<open>\<^verbatim>\<open>if i > 0 { time.Sleep(250 * time.Millisecond) }\<close>\<close>
  "pace i tr = (if i > 0 then time_Sleep 250 tr else tr)"

definition search_attempt ::
  "world \<Rightarrow> string \<Rightarrow> string \<Rightarrow> nat \<Rightarrow> string \<Rightarrow> event list \<Rightarrow> (string + int list) \<times> event list"
where
  \<comment> \<open>one iteration of the loop over \<^verbatim>\<open>searchVariations\<close>, up to the test of \<^verbatim>\<open>Results\<close>\<close>
  "search_attempt w apiKey year i searchTitle tr =
     (let searchURL = searchURL_of apiKey year searchTitle;
          tr = pace i tr;
          (resp, tr) = http_Get w tr searchURL
      in case resp of
           NetError err \<Rightarrow> (Inl (''network error: '' @ err), tr)
         | Response status b \<Rightarrow>
             if status = 429 then
               (let tr = time_Sleep 2000 tr;
                    (resp, tr) = http_Get w tr searchURL
                in case resp of
                     NetError err \<Rightarrow> (Inl (''retry failed: '' @ err), tr)
                   | Response status' b' \<Rightarrow> (decode_search resp, tr))
             else (decode_search resp, tr))"

fun search_loop ::
  "world \<Rightarrow> string \<Rightarrow> string \<Rightarrow> nat \<Rightarrow> string list \<Rightarrow> string option \<Rightarrow> event list
     \<Rightarrow> int \<times> string option \<times> event list"
where
  \<comment> \<open>\<^verbatim>\<open>movieID\<close>, \<^verbatim>\<open>searchErr\<close> and the trace after the loop\<close>
  "search_loop w apiKey year i [] searchErr tr = (0, searchErr, tr)"
| "search_loop w apiKey year i (searchTitle # rest) searchErr tr =
     (case search_attempt w apiKey year i searchTitle tr of
        (Inl err, tr') \<Rightarrow> search_loop w apiKey year (Suc i) rest (Some err) tr'
      | (Inr [], tr') \<Rightarrow> search_loop w apiKey year (Suc i) rest searchErr tr'
      | (Inr (movieID # _), tr') \<Rightarrow> (movieID, searchErr, tr'))"

definition detailsURL_of :: "string \<Rightarrow> int \<Rightarrow> string" where
  "detailsURL_of apiKey movieID =
     ''https://api.themoviedb.org/3/movie/'' @ dec_int movieID @ ''?api_key='' @ apiKey
       @ ''&append_to_response=credits,images''"

definition is_ok :: "http_result \<Rightarrow> bool" where
  \<comment> \<open>\<^verbatim>\<open>err == nil && resp.StatusCode == 200\<close>\<close>
  "is_ok r = (case r of NetError err \<Rightarrow> False | Response status b \<Rightarrow> status = 200)"

definition fetch_details :: "world \<Rightarrow> string \<Rightarrow> event list \<Rightarrow> http_result \<times> event list" where
  \<comment> \<open>the loop \<^verbatim>\<open>for attempt := 0; attempt < 2; attempt++\<close>\<close>
  "fetch_details w detailsURL tr =
     (let (resp, tr) = http_Get w tr detailsURL
      in if is_ok resp then (resp, tr)
         else http_Get w (time_Sleep 500 tr) detailsURL)"

definition get_details ::
  "world \<Rightarrow> string \<Rightarrow> int \<Rightarrow> event list \<Rightarrow> (string + TMDBMovie) \<times> event list"
where
  \<comment> \<open>the part of \<^verbatim>\<open>GetTMDBDetails\<close> that follows the test \<^verbatim>\<open>movieID == 0\<close>\<close>
  "get_details w apiKey movieID tr =
     (let (resp, tr) = fetch_details w (detailsURL_of apiKey movieID) tr
      in case resp of
           NetError err \<Rightarrow> (Inl (''failed to get movie details: '' @ err), tr)
         | Response status b \<Rightarrow>
             if status \<noteq> 200
             then (Inl (''details API error: status code '' @ dec_int status), tr)
             else (case details_json b of
                     Inl err \<Rightarrow> (Inl (''failed to parse movie details: '' @ err), tr)
                   | Inr tmdbData \<Rightarrow> (Inr tmdbData, tr)))"

definition GetTMDBDetails ::
  "App \<Rightarrow> world \<Rightarrow> (string \<Rightarrow> nat) \<Rightarrow> string \<Rightarrow> event list \<Rightarrow> (string + TMDBMovie) \<times> event list"
where
  \<comment> \<open>the second argument but last is the order of \<^verbatim>\<open>range commonReplacements\<close>\<close>
  "GetTMDBDetails a w rank movieTitle tr =
     (let apiKey = getTMDBAPIKey a w
      in if apiKey = [] \<or> length apiKey < 10 then (Inl ''TMDB API key not configured'', tr)
         else
          (let originalTitle = movieTitle;
               (year, movieTitle) = extract_year movieTitle;
               (movieID, searchErr, tr) =
                  search_loop w apiKey year 0 (searchVariations rank movieTitle) None tr
           in if movieID = 0 then (Inl (''no movie found for: '' @ originalTitle), tr)
              else get_details w apiKey movieID tr))"

section \<open>\<^verbatim>\<open>FindCommonMovies\<close>\<close>

definition profile_error :: "string \<Rightarrow> string" where
  "profile_error username =
     ''could not find profile for user: '' @ quoted username
       @ ''. The profile may be private or the username is incorrect''"

definition watchlist_error :: "string \<Rightarrow> string" where
  "watchlist_error username =
     ''could not find a public watchlist for user: '' @ quoted username
       @ ''. The profile may be private, empty, or the username is incorrect''"

fun validate_users ::
  "world \<Rightarrow> string list \<Rightarrow> (string, string) gomap \<Rightarrow> string + (string, string) gomap"
where
  \<comment> \<open>the first loop: \<^verbatim>\<open>userAvatars\<close>, or the error of the first profile that fails\<close>
  "validate_users w [] userAvatars = Inr userAvatars"
| "validate_users w (username # rest) userAvatars =
     (case GetUserAvatar w username of
        Inl err \<Rightarrow> Inl (profile_error username)
      | Inr avatar \<Rightarrow> validate_users w rest (AList.update username avatar userAvatars))"

type_synonym WatchlistResult = "string \<times> (string + (string, string) gomap)"

fun process_results ::
  "WatchlistResult list \<Rightarrow> (string, (string, string) gomap) gomap
     \<Rightarrow> string + (string, (string, string) gomap) gomap"
where
  \<comment> \<open>the loop over \<^verbatim>\<open>watchlistChan\<close>: \<^verbatim>\<open>scrapedData\<close>, or the error of the first result
      received that carries one\<close>
  "process_results [] scrapedData = Inr scrapedData"
| "process_results ((username, res) # rest) scrapedData =
     (case res of
        Inl err \<Rightarrow> Inl (watchlist_error username)
      | Inr movies \<Rightarrow> process_results rest (AList.update username movies scrapedData))"

type_synonym movieCounts = "(string, string list \<times> string) gomap"

definition count_entry :: "string \<Rightarrow> string \<times> string \<Rightarrow> movieCounts \<Rightarrow> movieCounts" where
  \<comment> \<open>the body of the inner loop; a value is \<^verbatim>\<open>Users\<close> and \<^verbatim>\<open>URL\<close>\<close>
  "count_entry user entry movieCounts =
     (case entry of (movieTitle, movieURL) \<Rightarrow>
        (case map_of movieCounts movieTitle of
           None \<Rightarrow> AList.update movieTitle ([user], movieURL) movieCounts
         | Some (users, url) \<Rightarrow> AList.update movieTitle (users @ [user], url) movieCounts))"

definition count_watchlist ::
  "schedule \<Rightarrow> string \<times> (string, string) gomap \<Rightarrow> movieCounts \<Rightarrow> movieCounts"
where
  \<comment> \<open>the inner loop, for one entry of \<^verbatim>\<open>scrapedData\<close>\<close>
  "count_watchlist sch entry movieCounts =
     (case entry of (user, watchlist) \<Rightarrow>
        fold (count_entry user) (range_map (titles_rank sch user) watchlist) movieCounts)"

definition count_movies ::
  "schedule \<Rightarrow> (string, (string, string) gomap) gomap \<Rightarrow> movieCounts"
where
  "count_movies sch scrapedData =
     fold (count_watchlist sch) (range_map (users_rank sch) scrapedData) []"

fun find_logo :: "Logo list \<Rightarrow> string \<Rightarrow> string" where
  \<comment> \<open>\<^verbatim>\<open>logoPath\<close> after the loop over the logos and the \<^verbatim>\<open>if\<close> that follows it; the second
      argument is \<^verbatim>\<open>noLangLogoPath\<close>\<close>
  "find_logo [] noLangLogoPath = noLangLogoPath"
| "find_logo (logo # rest) noLangLogoPath =
     (if ISO6391 logo = Some ''en''
      then (if FilePath logo = [] then noLangLogoPath else FilePath logo)
      else find_logo rest
             (if noLangLogoPath = [] \<and> (ISO6391 logo = None \<or> ISO6391 logo = Some ''xx'')
              then FilePath logo else noLangLogoPath))"

fun find_director :: "CrewMember list \<Rightarrow> Person" where
  "find_director [] = Person ''N/A'' 0"
| "find_director (crew # rest) =
     (if Job crew = ''Director'' then Person (crew_Name crew) (crew_ID crew)
      else find_director rest)"

definition placeholder_poster :: string where
  "placeholder_poster = ''https://placehold.co/500x750/1f1f1f/ffffff?text=No+Poster''"

definition default_values :: "Movie \<Rightarrow> Movie" where
  \<comment> \<open>the branch \<^verbatim>\<open>err != nil\<close>\<close>
  "default_values movie =
     movie\<lparr>Rating := 0, FormattedRating := ''N/A'', PosterURL := placeholder_poster,
       BackdropURL := placeholder_poster, LogoURL := [], ReleaseDate := ''0000-00-00'',
       ReleaseYear := ''----'', Runtime := 0, FormattedRuntime := [], Genres := Slice [],
       IMDBID := [], Overview := ''No overview available.'', Director := Person ''N/A'' 0,
       Cast := Slice []\<rparr>"

definition process_tmdb :: "world \<Rightarrow> TMDBMovie \<Rightarrow> Movie \<Rightarrow> Movie" where
  \<comment> \<open>the branch \<^verbatim>\<open>err == nil\<close>; the fields it does not assign keep the zero value\<close>
  "process_tmdb w tmdbDetails movie =
     (let rating = VoteAverage tmdbDetails;
          posterURL = (if PosterPath tmdbDetails \<noteq> []
                       then ''https://image.tmdb.org/t/p/w500'' @ PosterPath tmdbDetails
                       else placeholder_poster);
          logoPath = find_logo (Images_Logos tmdbDetails) [];
          releaseYear = (if tmdb_ReleaseDate tmdbDetails \<noteq> []
                         then first_segment (tmdb_ReleaseDate tmdbDetails)
                         else ReleaseYear movie);
          overview = tmdb_Overview tmdbDetails
      in movie\<lparr>
           Rating := rating,
           FormattedRating := (if rating > 0 then fmt_1f w rating else ''N/A''),
           PosterURL := posterURL,
           BackdropURL := (if BackdropPath tmdbDetails \<noteq> []
                           then ''https://image.tmdb.org/t/p/original'' @ BackdropPath tmdbDetails
                           else posterURL),
           LogoURL := (if logoPath \<noteq> [] then ''https://image.tmdb.org/t/p/original'' @ logoPath
                       else LogoURL movie),
           ReleaseDate := tmdb_ReleaseDate tmdbDetails,
           ReleaseYear := (if releaseYear = [] then ''----'' else releaseYear),
           Runtime := tmdb_Runtime tmdbDetails,
           FormattedRuntime := (if tmdb_Runtime tmdbDetails > 0
                                then dec_int (tmdb_Runtime tmdbDetails) @ '' min''
                                else FormattedRuntime movie),
           Genres := fold (\<lambda>genre genres. append_slice genres genre) (tmdb_Genres tmdbDetails)
                       (Genres movie),
           IMDBID := tmdb_IMDBID tmdbDetails,
           Overview := (if overview = [] then ''No overview available.'' else overview),
           Director := find_director (Credits_Crew tmdbDetails),
           Cast := fold (\<lambda>cast casts. append_slice casts (Person (cast_Name cast) (cast_ID cast)))
                     (take 5 (Credits_Cast tmdbDetails)) (Cast movie)\<rparr>)"

definition avatar_of :: "(string, string) gomap \<Rightarrow> string \<Rightarrow> string" where
  \<comment> \<open>\<^verbatim>\<open>userAvatars[username]\<close>; a key that is missing reads as the empty string\<close>
  "avatar_of userAvatars username =
     (case map_of userAvatars username of None \<Rightarrow> [] | Some avatar \<Rightarrow> avatar)"

definition make_movie ::
  "world \<Rightarrow> (string, string) gomap \<Rightarrow> string \<Rightarrow> string list \<times> string \<Rightarrow> string + TMDBMovie \<Rightarrow> Movie"
where
  \<comment> \<open>the record built for one title from the result of \<^verbatim>\<open>GetTMDBDetails\<close>\<close>
  "make_movie w userAvatars title data res =
     (let movie = zero_Movie\<lparr>Title := title, URL := snd data, Count := int (length (fst data)),
                    Users := fold (\<lambda>username users.
                                     append_slice users
                                       (User username (avatar_of userAvatars username)))
                               (fst data) (Users zero_Movie)\<rparr>
      in case res of
           Inl err \<Rightarrow> default_values movie
         | Inr tmdbDetails \<Rightarrow> process_tmdb w tmdbDetails movie)"

fun process_movies ::
  "App \<Rightarrow> world \<Rightarrow> schedule \<Rightarrow> (string, string) gomap \<Rightarrow> (string \<times> string list \<times> string) list
     \<Rightarrow> event list \<Rightarrow> Movie list \<times> event list"
where
  \<comment> \<open>the loop over \<^verbatim>\<open>movieCounts\<close>: \<^verbatim>\<open>processedMovies\<close> and the trace of the requests\<close>
  "process_movies a w sch userAvatars [] tr = ([], tr)"
| "process_movies a w sch userAvatars ((title, data) # rest) tr =
     (if length (fst data) \<ge> 2 then
        (let (res, tr) = GetTMDBDetails a w (replacements_rank sch title) title tr;
             movie = make_movie w userAvatars title data res;
             (processedMovies, tr) = process_movies a w sch userAvatars rest tr
         in (movie # processedMovies, tr))
      else process_movies a w sch userAvatars rest tr)"

definition movie_less :: "Movie \<Rightarrow> Movie \<Rightarrow> bool" where
  \<comment> \<open>the \<^verbatim>\<open>less\<close> function handed to \<^verbatim>\<open>sort.Slice\<close>\<close>
  "movie_less mi mj =
     (if Count mi \<noteq> Count mj then Count mi > Count mj else Rating mi > Rating mj)"

fun insert_by :: "('a \<Rightarrow> 'a \<Rightarrow> bool) \<Rightarrow> 'a \<Rightarrow> 'a list \<Rightarrow> 'a list" where
  "insert_by lt x [] = [x]"
| "insert_by lt x (y # ys) = (if lt y x then y # insert_by lt x ys else x # y # ys)"

definition sort_Slice :: "('a \<Rightarrow> 'a \<Rightarrow> bool) \<Rightarrow> 'a list \<Rightarrow> 'a list" where
  \<comment> \<open>\<^verbatim>\<open>sort.Slice\<close>.  The library promises a permutation ordered by \<^verbatim>\<open>less\<close> and no
      particular order of the elements that \<^verbatim>\<open>less\<close> does not separate; this is the sort by
      insertion, which keeps them in the order of the argument.  That order is the order of
      \<^verbatim>\<open>range movieCounts\<close>, which is arbitrary already.\<close>
  "sort_Slice lt xs = foldr (insert_by lt) xs []"

definition FindCommonMovies ::
  "App \<Rightarrow> world \<Rightarrow> schedule \<Rightarrow> string list \<Rightarrow> (string + Movie list) \<times> event list"
where
  \<comment> \<open>the result, and the trace of the requests sent to the metadata provider\<close>
  "FindCommonMovies a w sch usernames =
     (if length usernames = 0 then (Inl ''no usernames provided'', [])
      else
       (case validate_users w usernames [] of
          Inl err \<Rightarrow> (Inl err, [])
        | Inr userAvatars \<Rightarrow>
           (let results = map (\<lambda>user. (user, GetWatchlist w user)) usernames
            in case process_results (arrive (arrival_rank sch) results) [] of
                 Inl err \<Rightarrow> (Inl err, [])
               | Inr scrapedData \<Rightarrow>
                  (let movieCounts = count_movies sch scrapedData;
                       (processedMovies, tr) =
                          process_movies a w sch userAvatars
                            (range_map (counts_rank sch) movieCounts) []
                   in (Inr (sort_Slice movie_less processedMovies), tr)))))"


section \<open>The notions of the specification\<close>

text \<open>
  The words of the specification, as functions of the inputs: who contributes a title, in
  the order the users are visited, and the link seen first.
\<close>

definition has_title :: "string \<Rightarrow> string \<times> (string, string) gomap \<Rightarrow> bool" where
  "has_title t entry \<longleftrightarrow> map_of (snd entry) t \<noteq> None"

definition contributors ::
  "(string \<times> (string, string) gomap) list \<Rightarrow> string \<Rightarrow> string list"
where
  \<comment> \<open>the users whose watchlist holds the title, in the order they are visited\<close>
  "contributors visits t = map fst (filter (has_title t) visits)"

definition first_link ::
  "(string \<times> (string, string) gomap) list \<Rightarrow> string \<Rightarrow> string option"
where
  \<comment> \<open>the link the title has in the first watchlist visited that holds it\<close>
  "first_link visits t =
     (case filter (has_title t) visits of [] \<Rightarrow> None | entry # _ \<Rightarrow> map_of (snd entry) t)"

definition watches :: "world \<Rightarrow> string \<Rightarrow> string \<Rightarrow> bool" where
  \<comment> \<open>the watchlist fetched for the user holds the title\<close>
  "watches w t username =
     (case GetWatchlist w username of Inl err \<Rightarrow> False | Inr movies \<Rightarrow> map_of movies t \<noteq> None)"

definition watchers :: "world \<Rightarrow> string list \<Rightarrow> string \<Rightarrow> string list" where
  \<comment> \<open>the distinct usernames of the request that contribute the title\<close>
  "watchers w usernames t = filter (watches w t) (remdups usernames)"

definition placeholder_metadata :: "Movie \<Rightarrow> bool" where
  \<comment> \<open>the values a record has when the metadata could not be resolved\<close>
  "placeholder_metadata m \<longleftrightarrow>
     Rating m = 0 \<and> FormattedRating m = ''N/A''
     \<and> PosterURL m = ''https://placehold.co/500x750/1f1f1f/ffffff?text=No+Poster''
     \<and> BackdropURL m = PosterURL m \<and> LogoURL m = [] \<and> ReleaseDate m = ''0000-00-00''
     \<and> ReleaseYear m = ''----'' \<and> Runtime m = 0 \<and> FormattedRuntime m = []
     \<and> Genres m = Slice [] \<and> IMDBID m = [] \<and> Overview m = ''No overview available.''
     \<and> Director m = Person ''N/A'' 0 \<and> Cast m = Slice []"

definition built_for ::
  "App \<Rightarrow> world \<Rightarrow> schedule \<Rightarrow> (string, string) gomap \<Rightarrow> Movie
     \<Rightarrow> string \<times> string list \<times> string \<Rightarrow> bool"
where
  \<comment> \<open>the record is the one built for the entry of \<^verbatim>\<open>movieCounts\<close>, from the result of a
      call of \<^verbatim>\<open>GetTMDBDetails\<close> for its title\<close>
  "built_for a w sch ua m entry \<longleftrightarrow>
     (\<exists>tr. m = make_movie w ua (fst entry) (snd entry)
                (fst (GetTMDBDetails a w (replacements_rank sch (fst entry)) (fst entry) tr)))"

definition scraped ::
  "world \<Rightarrow> schedule \<Rightarrow> string list \<Rightarrow> (string, (string, string) gomap) gomap"
where
  \<comment> \<open>\<^verbatim>\<open>scrapedData\<close> of the request, when every watchlist is fetched\<close>
  "scraped w sch usernames =
     (case process_results
             (arrive (arrival_rank sch) (map (\<lambda>user. (user, GetWatchlist w user)) usernames)) [] of
        Inl err \<Rightarrow> []
      | Inr scrapedData \<Rightarrow> scrapedData)"

definition entries ::
  "world \<Rightarrow> schedule \<Rightarrow> string list \<Rightarrow> (string \<times> string list \<times> string) list"
where
  \<comment> \<open>the entries of \<^verbatim>\<open>movieCounts\<close> in the order the request ranges over them\<close>
  "entries w sch usernames =
     range_map (counts_rank sch) (count_movies sch (scraped w sch usernames))"

definition trace_before :: "App \<Rightarrow> world \<Rightarrow> schedule \<Rightarrow> string list \<Rightarrow> string \<Rightarrow> event list" where
  \<comment> \<open>what the request has sent to the provider when its loop reaches the title; the
      avatars have no part in what is sent\<close>
  "trace_before a w sch usernames t =
     snd (process_movies a w sch []
            (takeWhile (\<lambda>entry. fst entry \<noteq> t) (entries w sch usernames)) [])"

definition resolution ::
  "App \<Rightarrow> world \<Rightarrow> schedule \<Rightarrow> string list \<Rightarrow> string \<Rightarrow> string + TMDBMovie"
where
  \<comment> \<open>what the call of \<^verbatim>\<open>GetTMDBDetails\<close> that the request makes for the title returns\<close>
  "resolution a w sch usernames t =
     fst (GetTMDBDetails a w (replacements_rank sch t) t (trace_before a w sch usernames t))"

definition configured_key :: "App \<Rightarrow> world \<Rightarrow> string" where
  \<comment> \<open>the API key that was supplied: the runtime value, or else the variable of the
      environment; empty when neither is set\<close>
  "configured_key a w = (if runtimeAPIKey a \<noteq> [] then runtimeAPIKey a else env_TMDB_API_KEY w)"

definition utf8_chars :: "string \<Rightarrow> nat" where
  \<comment> \<open>the number of characters of a string in UTF-8: the bytes that do not continue one\<close>
  "utf8_chars s = length (filter (\<lambda>c. \<not> ((128::nat) \<le> of_char c \<and> (of_char c :: nat) < 192)) s)"

definition rep :: "char \<Rightarrow> string \<Rightarrow> string \<Rightarrow> string" where
  \<comment> \<open>every occurrence of one byte replaced\<close>
  "rep c new s = concat (map (\<lambda>x. if x = c then new else [x]) s)"

definition alt_char :: "char \<Rightarrow> string" where
  \<comment> \<open>what the four replacements make of one byte\<close>
  "alt_char c =
     (if c = CHR ''&'' then ''and'' else if c = CHR 0x27 then []
      else if c = CHR ''-'' then '' '' else if c = CHR '':'' then [] else [c])"

definition claimed_clean :: "string \<Rightarrow> string" where
  \<comment> \<open>the second variant in the words of the specification: every character that is neither
      alphanumeric nor white space removed\<close>
  "claimed_clean s = filter (\<lambda>c. is_digit c \<or> is_alpha c \<or> re_space c) s"

definition claimed_variations :: "(string \<Rightarrow> nat) \<Rightarrow> string \<Rightarrow> string list" where
  \<comment> \<open>the list of variants in the words of the specification\<close>
  "claimed_variations rank a =
     [a] @ (if claimed_clean a \<noteq> a then [claimed_clean a] else [])
         @ (if altTitle_of rank a \<noteq> a then [altTitle_of rank a] else [])"

fun no_candidates ::
  "world \<Rightarrow> string \<Rightarrow> string \<Rightarrow> nat \<Rightarrow> string list \<Rightarrow> string option \<Rightarrow> event list
     \<Rightarrow> (string option \<times> event list) option"
where
  \<comment> \<open>the variants are searched in turn and none returns a candidate: \<^verbatim>\<open>searchErr\<close> and the
      trace afterwards\<close>
  "no_candidates w apiKey year i [] searchErr tr = Some (searchErr, tr)"
| "no_candidates w apiKey year i (v # rest) searchErr tr =
     (case search_attempt w apiKey year i v tr of
        (Inl err, tr') \<Rightarrow> no_candidates w apiKey year (Suc i) rest (Some err) tr'
      | (Inr [], tr') \<Rightarrow> no_candidates w apiKey year (Suc i) rest searchErr tr'
      | (Inr (c # cs), tr') \<Rightarrow> None)"

section \<open>A request to run the model on\<close>

text \<open>
  Alice and Bob have two films on their watchlists, Carol has one of them.  The API key that
  is configured is too short to be used, so that no request is sent to the metadata provider.
\<close>

definition demo_profile :: "string \<Rightarrow> profile_scrape" where
  "demo_profile u =
     \<lparr>profile_visitErr = None, profile_onError = None, og_images = [''/avatar/'' @ u]\<rparr>"

definition demo_watchlist :: "string \<Rightarrow> watchlist_scrape" where
  "demo_watchlist u =
     \<lparr>watchlist_visitErr = None, watchlist_onError = None,
      posters = (if u = ''carol'' then [(''/film/arrival-2016/'', ''Arrival (2016)'')]
                 else [(''/film/dune-2021/'', ''Dune (2021)''),
                       (''/film/arrival-2016/'', ''Arrival (2016)'')])\<rparr>"

definition demo_world :: world where
  "demo_world =
     \<lparr>env_TMDB_API_KEY = ''secret'', profile_page = demo_profile,
      watchlist_pages = demo_watchlist, provider = (\<lambda>tr url. NetError ''offline''),
      fmt_1f = (\<lambda>x. ''?'')\<rparr>"

definition demo_schedule :: schedule where
  "demo_schedule =
     \<lparr>arrival_rank = (\<lambda>i. 2 - i), users_rank = length, titles_rank = (\<lambda>u t. 0),
      counts_rank = length, replacements_rank = (\<lambda>t k. 0)\<rparr>"

definition demo_app :: App where
  "demo_app = \<lparr>runtimeAPIKey = []\<rparr>"

definition demo_usernames :: "string list" where
  "demo_usernames = [''alice'', ''bob'', ''carol'']"

definition demo_movies :: "Movie list" where
  \<comment> \<open>what the request returns\<close>
  "demo_movies =
     [default_values (zero_Movie\<lparr>Title := ''Arrival (2016)'',
        URL := ''https://letterboxd.com/film/arrival-2016/'', Count := 3,
        Users := Slice [User ''bob'' ''/avatar/bob'', User ''carol'' ''/avatar/carol'',
                        User ''alice'' ''/avatar/alice'']\<rparr>),
      default_values (zero_Movie\<lparr>Title := ''Dune (2021)'',
        URL := ''https://letterboxd.com/film/dune-2021/'', Count := 2,
        Users := Slice [User ''bob'' ''/avatar/bob'', User ''alice'' ''/avatar/alice'']\<rparr>)]"

definition demo_scraped :: "(string, (string, string) gomap) gomap" where
  \<comment> \<open>two watchlists that give the film they share two different links\<close>
  "demo_scraped =
     [(''alice'', [(''Dune'', ''/alice/dune''), (''Arrival'', ''/alice/arrival'')]),
      (''bob'', [(''Arrival'', ''/bob/arrival'')])]"

definition private_world :: world where
  \<comment> \<open>no profile page can be fetched\<close>
  "private_world =
     demo_world\<lparr>profile_page :=
       (\<lambda>u. \<lparr>profile_visitErr = Some ''Not Found'', profile_onError = Some ''Not Found'',
              og_images = []\<rparr>)\<rparr>"

definition empty_watchlist_world :: world where
  \<comment> \<open>the watchlist of Bob exists and has no film on it\<close>
  "empty_watchlist_world =
     demo_world\<lparr>watchlist_pages :=
       (\<lambda>u. if u = ''bob''
            then \<lparr>watchlist_visitErr = None, watchlist_onError = None, posters = []\<rparr>
            else demo_watchlist u)\<rparr>"

definition offline_world :: world where
  \<comment> \<open>an API key that is long enough, and a metadata provider that cannot be reached\<close>
  "offline_world = demo_world\<lparr>env_TMDB_API_KEY := ''0123456789abcdef''\<rparr>"

definition bare_payload :: TMDBMovie where
  \<comment> \<open>details with seven cast members, no genre and no crew\<close>
  "bare_payload =
     zero_TMDBMovie\<lparr>tmdb_ID := 603, VoteAverage := 82 / 10,
       Credits_Cast := map (\<lambda>i. CastMember ''actor'' (int i)) [1 ..< 8]\<rparr>"

definition no_body :: body where
  "no_body = \<lparr>search_json = Inl ''EOF'', details_json = Inl ''EOF''\<rparr>"

definition is_Get :: "event \<Rightarrow> bool" where
  "is_Get e = (case e of Get url \<Rightarrow> True | Sleep ms \<Rightarrow> False)"

definition scripted :: "http_result list \<Rightarrow> world" where
  \<comment> \<open>a provider that gives these answers in turn, whatever is requested, and cannot be
      reached afterwards\<close>
  "scripted answers =
     offline_world\<lparr>provider :=
       (\<lambda>tr url. let n = length (filter is_Get tr)
                 in if n < length answers then answers ! n else NetError ''offline'')\<rparr>"

definition found :: "int list \<Rightarrow> http_result" where
  \<comment> \<open>the answer to a search that has these results\<close>
  "found ids = Response 200 (no_body\<lparr>search_json := Inr ids\<rparr>)"

definition two_answers_world :: world where
  \<comment> \<open>the provider answers a search and a request of details, and nothing after them\<close>
  "two_answers_world =
     scripted [found [603], Response 200 (no_body\<lparr>details_json := Inr bare_payload\<rparr>)]"



definition unconfigured_world :: world where
  \<comment> \<open>no API key in the environment\<close>
  "unconfigured_world = offline_world\<lparr>env_TMDB_API_KEY := []\<rparr>"

definition accented_app :: App where
  \<comment> \<open>a runtime API key of five characters, which are ten bytes in UTF-8\<close>
  "accented_app =
     \<lparr>runtimeAPIKey = [CHR 0xC3, CHR 0xA9, CHR 0xC3, CHR 0xA9, CHR 0xC3, CHR 0xA9,
                      CHR 0xC3, CHR 0xA9, CHR 0xC3, CHR 0xA9]\<rparr>"

definition variant_world :: world where
  \<comment> \<open>a provider that has no result for \<^verbatim>\<open>Dune: Part-Two\<close>, cannot be reached for
      \<^verbatim>\<open>Dune PartTwo\<close>, and has two results for \<^verbatim>\<open>Dune Part Two\<close>\<close>
  "variant_world =
     offline_world\<lparr>provider :=
       (\<lambda>tr url.
          if url = searchURL_of ''0123456789abcdef'' ''2024'' ''Dune Part Two''
          then Response 200 \<lparr>search_json = Inr [693134, 438631], details_json = Inr bare_payload\<rparr>
          else if url = searchURL_of ''0123456789abcdef'' ''2024'' ''Dune PartTwo''
          then NetError ''reset''
          else Response 200 \<lparr>search_json = Inr [], details_json = Inr bare_payload\<rparr>)\<rparr>"

section \<open>Orders of iteration\<close>

lemma mset_range_map: "mset (range_map rank m) = mset m"
  by (simp add: range_map_def)

lemma set_range_map: "set (range_map rank m) = set m"
  by (simp add: range_map_def)

lemma distinct_range_map:
  "distinct (map fst m) \<Longrightarrow> distinct (map fst (range_map rank m))"
proof -
  assume d: "distinct (map fst m)"
  have "mset (map fst (range_map rank m)) = mset (map fst m)"
    by (simp add: mset_range_map)
  then show ?thesis
    using d mset_eq_imp_distinct_iff by blast
qed

lemma map_of_range_map:
  "distinct (map fst m) \<Longrightarrow> map_of (range_map rank m) = map_of m"
  by (simp add: map_of_inject_set distinct_range_map set_range_map)

lemma mset_arrive: "mset (arrive rank xs) = mset xs"
proof -
  have "mset (arrive rank xs) = mset (map snd (enumerate 0 xs))"
    unfolding arrive_def by (simp only: mset_map mset_sort)
  then show ?thesis by simp
qed

lemma set_arrive: "set (arrive rank xs) = set xs"
  using mset_arrive [of rank xs] by (metis set_mset_mset)

lemma insort_key_map:
  "insort_key k (g x) (map g ys) = map g (insort_key (\<lambda>y. k (g y)) x ys)"
  by (induction ys) simp_all

lemma sort_key_map: "sort_key k (map g ys) = map g (sort_key (\<lambda>y. k (g y)) ys)"
  by (induction ys) (simp_all add: insort_key_map)

lemma enumerate_map:
  "enumerate n (map f xs) = map (\<lambda>ix. (fst ix, f (snd ix))) (enumerate n xs)"
  by (induction xs arbitrary: n) simp_all

lemma arrive_map: "arrive rank (map f xs) = map f (arrive rank xs)"
  by (simp add: arrive_def enumerate_map sort_key_map)

text \<open>Every order of iteration, and every order of arrival, is the order of some rank.\<close>

lemma position_nth: "distinct xs \<Longrightarrow> i < length xs \<Longrightarrow> position xs (xs ! i) = i"
proof -
  assume d: "distinct xs" and i: "i < length xs"
  have "takeWhile (\<lambda>y. y \<noteq> xs ! i) xs = take i xs"
  proof (rule takeWhile_eq_take_P_nth)
    fix j assume "j < i" "j < length xs"
    with d i show "xs ! j \<noteq> xs ! i" by (simp add: nth_eq_iff_index_eq)
  next
    show "\<not> xs ! i \<noteq> xs ! i" by simp
  qed
  with i show ?thesis by (simp add: position_def)
qed

lemma map_position: "distinct xs \<Longrightarrow> map (position xs) xs = [0..<length xs]"
  by (rule nth_equalityI) (simp_all add: position_nth)

lemma position_inj:
  assumes "distinct xs" "x \<in> set xs" "y \<in> set xs" "position xs x = position xs y"
  shows "x = y"
proof -
  from assms(2,3) obtain i j where "i < length xs" "xs ! i = x" "j < length xs" "xs ! j = y"
    by (auto simp: in_set_conv_nth)
  with assms(1,4) show ?thesis by (auto simp: position_nth)
qed

lemma filter_eq_single: "distinct xs \<Longrightarrow> k \<in> set xs \<Longrightarrow> filter (\<lambda>x. x = k) xs = [k]"
  by (induction xs) (auto simp: filter_empty_conv)

lemma range_map_any_order:
  assumes d: "distinct (map fst m)" and p: "mset p = mset m"
  shows "range_map (position (map fst p)) m = p"
  unfolding range_map_def
proof (rule properties_for_sort_key)
  show "mset p = mset m" by (rule p)
next
  have dk: "distinct (map fst p)"
    using d p by (metis mset_eq_imp_distinct_iff mset_map)
  have "map (\<lambda>kv. position (map fst p) (fst kv)) p = map (position (map fst p)) (map fst p)"
    by simp
  also have "\<dots> = [0..<length (map fst p)]" using dk by (rule map_position)
  finally show "sorted (map (\<lambda>kv. position (map fst p) (fst kv)) p)" by simp
  fix k assume k: "k \<in> set p"
  have s: "set m = set p" using p by (metis set_mset_mset)
  have same: "position (map fst p) (fst k) = position (map fst p) (fst x) \<longleftrightarrow> x = k"
    if "x \<in> set p" for x
  proof
    assume "position (map fst p) (fst k) = position (map fst p) (fst x)"
    with dk k that have "fst k = fst x" by (auto intro: position_inj)
    with dk k that show "x = k"
      by (metis eq_key_imp_eq_value prod.collapse)
  qed simp
  have "filter (\<lambda>x. position (map fst p) (fst k) = position (map fst p) (fst x)) p
      = filter (\<lambda>x. x = k) p"
    by (rule filter_cong) (simp_all add: same)
  moreover have "filter (\<lambda>x. position (map fst p) (fst k) = position (map fst p) (fst x)) m
      = filter (\<lambda>x. x = k) m"
    by (rule filter_cong) (simp_all add: same s)
  moreover have "distinct p" "distinct m"
    using dk d by (auto dest: distinct_map [THEN iffD1])
  ultimately show "filter (\<lambda>x. position (map fst p) (fst k) = position (map fst p) (fst x)) p
      = filter (\<lambda>x. position (map fst p) (fst k) = position (map fst p) (fst x)) m"
    using k s by (simp add: filter_eq_single)
qed


lemma arrive_any_order:
  assumes "mset order = mset [0..<length xs]"
  shows "arrive (position order) xs = map (nth xs) order"
proof -
  let ?p = "map (\<lambda>i. (i, xs ! i)) order"
  have e: "enumerate 0 xs = map (\<lambda>i. (i, xs ! i)) [0..<length xs]"
    using enumerate_map_upt [of 0 "nth xs" "length xs"] by (simp add: map_nth)
  have "mset ?p = image_mset (\<lambda>i. (i, xs ! i)) (mset order)" by simp
  also have "\<dots> = mset (enumerate 0 xs)" by (simp add: assms e)
  finally have m: "mset ?p = mset (enumerate 0 xs)" .
  have k: "map fst ?p = order" by (simp add: comp_def)
  have "distinct (map fst (enumerate 0 xs))" by simp
  from range_map_any_order [OF this m] have "range_map (position order) (enumerate 0 xs) = ?p"
    by (simp only: k)
  then have "arrive (position order) xs = map snd ?p"
    by (simp add: arrive_def range_map_def)
  then show ?thesis by (simp add: comp_def)
qed

section \<open>The intersection\<close>

lemma map_of_count_entry:
  "map_of (count_entry user (t', url) mc) t =
     (if t = t'
      then (case map_of mc t of None \<Rightarrow> Some ([user], url)
            | Some (users, u0) \<Rightarrow> Some (users @ [user], u0))
      else map_of mc t)"
  by (simp add: count_entry_def update_conv' split: option.splits)

lemma distinct_count_entry:
  "distinct (map fst mc) \<Longrightarrow> distinct (map fst (count_entry user e mc))"
  by (cases e) (simp add: count_entry_def distinct_update split: option.splits)

lemma distinct_fold_count_entry:
  "distinct (map fst mc) \<Longrightarrow> distinct (map fst (fold (count_entry user) es mc))"
  by (induction es arbitrary: mc) (simp_all add: distinct_count_entry)

lemma map_of_fold_count_entry:
  "distinct (map fst es) \<Longrightarrow>
   map_of (fold (count_entry user) es mc) t =
     (case map_of es t of
        None \<Rightarrow> map_of mc t
      | Some url \<Rightarrow>
          (case map_of mc t of None \<Rightarrow> Some ([user], url)
           | Some (users, u0) \<Rightarrow> Some (users @ [user], u0)))"
proof (induction es arbitrary: mc)
  case Nil
  then show ?case by simp
next
  case (Cons e es)
  obtain t' url where e: "e = (t', url)" by (cases e)
  from Cons.prems e have notin: "map_of es t' = None" and d: "distinct (map fst es)"
    by (auto simp: map_of_eq_None_iff)
  have IH: "map_of (fold (count_entry user) (e # es) mc) t =
     (case map_of es t of
        None \<Rightarrow> map_of (count_entry user e mc) t
      | Some url \<Rightarrow>
          (case map_of (count_entry user e mc) t of None \<Rightarrow> Some ([user], url)
           | Some (users, u0) \<Rightarrow> Some (users @ [user], u0)))"
    using Cons.IH [OF d, of "count_entry user e mc"] by simp
  show ?case
  proof (cases "t = t'")
    case True
    have "map_of (count_entry user e mc) t =
       (case map_of mc t of None \<Rightarrow> Some ([user], url)
        | Some (users, u0) \<Rightarrow> Some (users @ [user], u0))"
      using e True by (simp add: map_of_count_entry)
    with IH notin e True show ?thesis by (simp split: option.splits)
  next
    case False
    have "map_of (count_entry user e mc) t = map_of mc t"
      using e False by (simp add: map_of_count_entry)
    with IH e False show ?thesis by (simp split: option.splits)
  qed
qed

lemma map_of_count_watchlist:
  "distinct (map fst (snd uw)) \<Longrightarrow>
   map_of (count_watchlist sch uw mc) t =
     (case map_of (snd uw) t of
        None \<Rightarrow> map_of mc t
      | Some url \<Rightarrow>
          (case map_of mc t of None \<Rightarrow> Some ([fst uw], url)
           | Some (users, u0) \<Rightarrow> Some (users @ [fst uw], u0)))"
  by (cases uw)
    (simp add: count_watchlist_def map_of_fold_count_entry distinct_range_map map_of_range_map
       split: option.splits)

lemma distinct_count_watchlist:
  "distinct (map fst mc) \<Longrightarrow> distinct (map fst (count_watchlist sch uw mc))"
  by (cases uw) (simp add: count_watchlist_def distinct_fold_count_entry)

lemma distinct_fold_count_watchlist:
  "distinct (map fst mc) \<Longrightarrow> distinct (map fst (fold (count_watchlist sch) visits mc))"
  by (induction visits arbitrary: mc) (simp_all add: distinct_count_watchlist)

lemma map_of_fold_count_watchlist:
  "\<forall>uw \<in> set visits. distinct (map fst (snd uw)) \<Longrightarrow>
   map_of (fold (count_watchlist sch) visits mc) t =
     (case map_of mc t of
        None \<Rightarrow> (if contributors visits t = [] then None
                  else Some (contributors visits t, the (first_link visits t)))
      | Some (users, u0) \<Rightarrow> Some (users @ contributors visits t, u0))"
proof (induction visits arbitrary: mc)
  case Nil
  then show ?case by (simp add: contributors_def split: option.splits)
next
  case (Cons uw visits)
  then have d: "distinct (map fst (snd uw))"
    and ds: "\<forall>uw \<in> set visits. distinct (map fst (snd uw))"
    by simp_all
  note IH = Cons.IH [OF ds, of "count_watchlist sch uw mc"]
  show ?case
  proof (cases "map_of (snd uw) t")
    case None
    then have "map_of (count_watchlist sch uw mc) t = map_of mc t"
      by (simp add: map_of_count_watchlist d)
    moreover from None have "contributors (uw # visits) t = contributors visits t"
      "first_link (uw # visits) t = first_link visits t"
      by (simp_all add: contributors_def first_link_def has_title_def)
    ultimately show ?thesis using IH by (simp split: option.splits)
  next
    case (Some url)
    then have c: "contributors (uw # visits) t = fst uw # contributors visits t"
      and f: "first_link (uw # visits) t = Some url"
      by (simp_all add: contributors_def first_link_def has_title_def)
    from Some have "map_of (count_watchlist sch uw mc) t =
       (case map_of mc t of None \<Rightarrow> Some ([fst uw], url)
        | Some (users, u0) \<Rightarrow> Some (users @ [fst uw], u0))"
      by (simp add: map_of_count_watchlist d)
    with IH c f show ?thesis
      by (simp split: option.splits)
  qed
qed

lemma map_of_count_movies:
  assumes "\<forall>uw \<in> set sd. distinct (map fst (snd uw))"
  shows "map_of (count_movies sch sd) t =
     (if contributors (range_map (users_rank sch) sd) t = [] then None
      else Some (contributors (range_map (users_rank sch) sd) t,
                 the (first_link (range_map (users_rank sch) sd) t)))"
  using assms
  by (simp add: count_movies_def map_of_fold_count_watchlist set_range_map)

lemma distinct_count_movies: "distinct (map fst (count_movies sch sd))"
  by (simp add: count_movies_def distinct_fold_count_watchlist)

section \<open>Scraping\<close>

lemma distinct_extract_movies_aux:
  "distinct (map fst acc) \<Longrightarrow>
   distinct (map fst (fold (\<lambda>(posterDiv, img) movies.
             if img \<noteq> [] \<and> posterDiv \<noteq> []
             then AList.update img (''https://letterboxd.com'' @ posterDiv) movies
             else movies) ps acc))"
  by (induction ps arbitrary: acc) (auto simp: distinct_update)

lemma distinct_extract_movies: "distinct (map fst (extract_movies ps))"
  by (simp add: extract_movies_def distinct_extract_movies_aux)

lemma GetWatchlist_distinct: "GetWatchlist w u = Inr movies \<Longrightarrow> distinct (map fst movies)"
  by (auto simp: GetWatchlist_def Let_def distinct_extract_movies split: option.splits if_splits)

lemma validate_users_fail:
  "find (\<lambda>u. isl (GetUserAvatar w u)) us = Some v \<Longrightarrow>
   validate_users w us acc = Inl (profile_error v)"
  by (induction us arbitrary: acc) (auto split: sum.splits if_splits)

lemma validate_users_ok:
  "\<forall>u \<in> set us. \<not> isl (GetUserAvatar w u) \<Longrightarrow>
   \<exists>ua. validate_users w us acc = Inr ua"
  by (induction us arbitrary: acc) (auto split: sum.splits)

lemma process_results_fail:
  "find (\<lambda>u. isl (G u)) us = Some v \<Longrightarrow>
   process_results (map (\<lambda>u. (u, G u)) us) acc = Inl (watchlist_error v)"
  by (induction us arbitrary: acc) (auto split: sum.splits if_splits)

lemma process_results_ok:
  "\<forall>u \<in> set us. \<not> isl (G u) \<Longrightarrow> distinct (map fst acc) \<Longrightarrow>
   \<exists>sd. process_results (map (\<lambda>u. (u, G u)) us) acc = Inr sd \<and> distinct (map fst sd)
     \<and> (\<forall>u. map_of sd u = (if u \<in> set us then Some (projr (G u)) else map_of acc u))"
proof (induction us arbitrary: acc)
  case Nil
  then show ?case by simp
next
  case (Cons v us)
  from Cons.prems obtain movies where v: "G v = Inr movies"
    by (cases "G v") auto
  have d: "distinct (map fst (AList.update v movies acc))"
    using Cons.prems by (simp add: distinct_update)
  from Cons.prems have "\<forall>u \<in> set us. \<not> isl (G u)" by simp
  from Cons.IH [OF this d] obtain sd where
    sd: "process_results (map (\<lambda>u. (u, G u)) us) (AList.update v movies acc) = Inr sd"
      "distinct (map fst sd)"
      "\<forall>u. map_of sd u = (if u \<in> set us then Some (projr (G u))
                           else map_of (AList.update v movies acc) u)"
    by blast
  have "\<forall>u. map_of sd u = (if u \<in> set (v # us) then Some (projr (G u)) else map_of acc u)"
    using sd(3) v by (auto simp: update_conv')
  with sd(1,2) v show ?case by simp
qed

section \<open>The records built\<close>

lemma fold_append_slice:
  "fold (\<lambda>x s. append_slice s (f x)) xs s = (if xs = [] then s else Slice (elems s @ map f xs))"
  by (induction xs arbitrary: s) (auto simp: append_slice_def)

lemma default_values_keeps:
  "Title (default_values m) = Title m"
  "URL (default_values m) = URL m"
  "Count (default_values m) = Count m"
  "Users (default_values m) = Users m"
  by (simp_all add: default_values_def)

lemma process_tmdb_keeps:
  "Title (process_tmdb w p m) = Title m"
  "URL (process_tmdb w p m) = URL m"
  "Count (process_tmdb w p m) = Count m"
  "Users (process_tmdb w p m) = Users m"
  by (simp_all add: process_tmdb_def Let_def)

lemma make_movie_fields [simp]:
  "Title (make_movie w ua t d res) = t"
  "URL (make_movie w ua t d res) = snd d"
  "Count (make_movie w ua t d res) = int (length (fst d))"
  by (cases res; simp add: make_movie_def Let_def default_values_keeps process_tmdb_keeps)+

lemma make_movie_Users:
  "Users (make_movie w ua t d res) =
     (if fst d = [] then NilSlice
      else Slice (map (\<lambda>username. User username (avatar_of ua username)) (fst d)))"
  by (cases res;
      simp add: make_movie_def Let_def default_values_keeps process_tmdb_keeps fold_append_slice
        zero_Movie_def)+

lemma process_movies_built:
  "list_all2 (built_for a w sch ua) (fst (process_movies a w sch ua es tr))
     (filter (\<lambda>e. 2 \<le> length (fst (snd e))) es)"
proof (induction es arbitrary: tr)
  case Nil
  then show ?case by simp
next
  case (Cons e es)
  obtain t d where e: "e = (t, d)" by (cases e)
  show ?case
  proof (cases "2 \<le> length (fst d)")
    case True
    obtain res tr' where r: "GetTMDBDetails a w (replacements_rank sch t) t tr = (res, tr')"
      by (cases "GetTMDBDetails a w (replacements_rank sch t) t tr")
    obtain ms tr'' where p: "process_movies a w sch ua es tr' = (ms, tr'')"
      by (cases "process_movies a w sch ua es tr'")
    have "built_for a w sch ua (make_movie w ua t d res) (t, d)"
      unfolding built_for_def using r by (metis fst_conv snd_conv)
    moreover have "list_all2 (built_for a w sch ua) ms (filter (\<lambda>e. 2 \<le> length (fst (snd e))) es)"
      using Cons.IH [of tr'] p by simp
    ultimately show ?thesis
      using True e r p by simp
  next
    case False
    with Cons.IH [of tr] e show ?thesis by simp
  qed
qed

section \<open>Sorting\<close>

lemma mset_insert_by: "mset (insert_by lt x xs) = add_mset x (mset xs)"
  by (induction xs) simp_all

lemma mset_sort_Slice: "mset (sort_Slice lt xs) = mset xs"
  by (induction xs) (simp_all add: sort_Slice_def mset_insert_by)

lemma set_insert_by: "set (insert_by lt x xs) = insert x (set xs)"
  using mset_insert_by [of lt x xs] by (metis set_mset_add_mset_insert set_mset_mset)

lemma set_sort_Slice: "set (sort_Slice lt xs) = set xs"
  using mset_sort_Slice [of lt xs] by (metis set_mset_mset)

lemma movie_less_asym: "movie_less a b \<Longrightarrow> \<not> movie_less b a"
  by (auto simp: movie_less_def split: if_splits)

lemma not_movie_less_trans:
  "\<not> movie_less b a \<Longrightarrow> \<not> movie_less c b \<Longrightarrow> \<not> movie_less c a"
  by (auto simp: movie_less_def split: if_splits)

lemma sorted_insert_by:
  "sorted_wrt (\<lambda>a b. \<not> movie_less b a) xs \<Longrightarrow>
   sorted_wrt (\<lambda>a b. \<not> movie_less b a) (insert_by movie_less x xs)"
proof (induction xs)
  case Nil
  then show ?case by simp
next
  case (Cons y ys)
  show ?case
  proof (cases "movie_less y x")
    case True
    with Cons show ?thesis
      by (auto simp: set_insert_by movie_less_asym)
  next
    case False
    with Cons.prems show ?thesis
      using not_movie_less_trans [of y x] by auto
  qed
qed

lemma sorted_sort_Slice: "sorted_wrt (\<lambda>a b. \<not> movie_less b a) (sort_Slice movie_less xs)"
  by (induction xs) (simp_all add: sort_Slice_def sorted_insert_by)

section \<open>The whole request\<close>

lemma FindCommonMovies_ok:
  assumes ne: "usernames \<noteq> []"
    and profiles: "\<forall>u \<in> set usernames. \<not> isl (GetUserAvatar w u)"
    and watchlists: "\<forall>u \<in> set usernames. \<not> isl (GetWatchlist w u)"
  obtains ua sd where
    "validate_users w usernames [] = Inr ua"
    "distinct (map fst sd)"
    "\<forall>u. map_of sd u = (if u \<in> set usernames then Some (projr (GetWatchlist w u)) else None)"
    "FindCommonMovies a w sch usernames =
       (Inr (sort_Slice movie_less
              (fst (process_movies a w sch ua
                      (range_map (counts_rank sch) (count_movies sch sd)) []))),
        snd (process_movies a w sch ua (range_map (counts_rank sch) (count_movies sch sd)) []))"
proof -
  from validate_users_ok [OF profiles] obtain ua where ua: "validate_users w usernames [] = Inr ua"
    by blast
  let ?arr = "arrive (arrival_rank sch) usernames"
  have "\<forall>u \<in> set ?arr. \<not> isl (GetWatchlist w u)"
    using watchlists by (simp add: set_arrive)
  from process_results_ok [OF this, of "[]"] obtain sd where
    sd: "process_results (map (\<lambda>u. (u, GetWatchlist w u)) ?arr) [] = Inr sd"
      "distinct (map fst sd)"
      "\<forall>u. map_of sd u = (if u \<in> set ?arr then Some (projr (GetWatchlist w u)) else None)"
    by auto
  have arr: "arrive (arrival_rank sch) (map (\<lambda>user. (user, GetWatchlist w user)) usernames)
      = map (\<lambda>u. (u, GetWatchlist w u)) ?arr"
    by (rule arrive_map)
  have "FindCommonMovies a w sch usernames =
       (Inr (sort_Slice movie_less
              (fst (process_movies a w sch ua
                      (range_map (counts_rank sch) (count_movies sch sd)) []))),
        snd (process_movies a w sch ua (range_map (counts_rank sch) (count_movies sch sd)) []))"
    using ne ua sd(1) by (simp add: FindCommonMovies_def arr Let_def case_prod_beta)
  with ua sd(2,3) that show thesis
    by (simp add: set_arrive)
qed

lemma scraped_watchlists_distinct:
  assumes "\<forall>u. map_of sd u = (if u \<in> set usernames then Some (projr (GetWatchlist w u)) else None)"
    and "\<forall>u \<in> set usernames. \<not> isl (GetWatchlist w u)"
    and "distinct (map fst sd)"
  shows "\<forall>entry \<in> set sd. distinct (map fst (snd entry))"
proof
  fix entry assume "entry \<in> set sd"
  then have "(fst entry, snd entry) \<in> set sd" by simp
  with assms(3) have m: "map_of sd (fst entry) = Some (snd entry)"
    by (rule map_of_is_SomeI)
  with assms(1) have u: "fst entry \<in> set usernames" and e: "snd entry = projr (GetWatchlist w (fst entry))"
    by (auto split: if_splits)
  with assms(2) have "GetWatchlist w (fst entry) = Inr (snd entry)"
    by (cases "GetWatchlist w (fst entry)") auto
  then show "distinct (map fst (snd entry))" by (rule GetWatchlist_distinct)
qed

lemma length_contributors:
  assumes sd: "\<forall>u. map_of sd u = (if u \<in> set usernames then Some (projr (GetWatchlist w u)) else None)"
    and ok: "\<forall>u \<in> set usernames. \<not> isl (GetWatchlist w u)"
    and d: "distinct (map fst sd)"
  shows "length (contributors (range_map rank sd) t) = length (watchers w usernames t)"
proof -
  let ?vs = "range_map rank sd"
  have dv: "distinct (map fst ?vs)" using d by (rule distinct_range_map)
  then have d1: "distinct (contributors ?vs t)"
    unfolding contributors_def by (rule distinct_map_filter)
  have d2: "distinct (watchers w usernames t)"
    by (simp add: watchers_def)
  have "set (contributors ?vs t) = set (watchers w usernames t)"
  proof (intro set_eqI iffI)
    fix u assume "u \<in> set (contributors ?vs t)"
    then obtain wl where e: "(u, wl) \<in> set sd" and h: "map_of wl t \<noteq> None"
      by (auto simp: contributors_def has_title_def set_range_map)
    from e d have "map_of sd u = Some wl" by simp
    with sd have "u \<in> set usernames" "wl = projr (GetWatchlist w u)"
      by (auto split: if_splits)
    with ok h show "u \<in> set (watchers w usernames t)"
      by (cases "GetWatchlist w u") (auto simp: watchers_def watches_def)
  next
    fix u assume "u \<in> set (watchers w usernames t)"
    then have u: "u \<in> set usernames" and wt: "watches w t u"
      by (auto simp: watchers_def)
    then obtain wl where wl: "GetWatchlist w u = Inr wl" "map_of wl t \<noteq> None"
      by (auto simp: watches_def split: sum.splits)
    with sd u have "map_of sd u = Some wl" by simp
    then have "(u, wl) \<in> set sd" by (rule map_of_SomeD)
    with wl(2) show "u \<in> set (contributors ?vs t)"
      by (force simp: contributors_def has_title_def set_range_map)
  qed
  with d1 d2 show ?thesis
    by (metis distinct_card)
qed

lemma length_filter_key:
  "distinct (map fst es) \<Longrightarrow>
   length (filter (\<lambda>e. fst e = t \<and> P (snd e)) es) =
     (case map_of es t of None \<Rightarrow> 0 | Some d \<Rightarrow> if P d then 1 else 0)"
proof (induction es)
  case Nil
  then show ?case by simp
next
  case (Cons e es)
  show ?case
  proof (cases "fst e = t")
    case True
    with Cons.prems have "t \<notin> fst ` set es" by simp
    then have "\<forall>x \<in> set es. fst x \<noteq> t" by (metis imageI)
    then have "filter (\<lambda>e. fst e = t \<and> P (snd e)) es = []"
      by (simp add: filter_empty_conv)
    with True show ?thesis by (cases e) simp
  next
    case False
    with Cons show ?thesis by (cases e) auto
  qed
qed

lemma list_all2_filter:
  "list_all2 R xs ys \<Longrightarrow> (\<And>x y. R x y \<Longrightarrow> P x = Q y) \<Longrightarrow>
   list_all2 R (filter P xs) (filter Q ys)"
  by (induction rule: list_all2_induct) auto

lemma list_all2_member:
  "list_all2 R xs ys \<Longrightarrow> x \<in> set xs \<Longrightarrow> \<exists>y \<in> set ys. R x y"
  by (induction rule: list_all2_induct) auto

lemma built_for_fields:
  "built_for a w sch ua m e \<Longrightarrow>
   Title m = fst e \<and> URL m = snd (snd e) \<and> Count m = int (length (fst (snd e)))"
  by (auto simp: built_for_def)

lemma process_movies_count:
  assumes "distinct (map fst es)"
  shows "length (filter (\<lambda>m. Title m = t) (fst (process_movies a w sch ua es tr))) =
     (case map_of es t of None \<Rightarrow> 0 | Some d \<Rightarrow> if 2 \<le> length (fst d) then 1 else 0)"
proof -
  let ?pm = "fst (process_movies a w sch ua es tr)"
  let ?fes = "filter (\<lambda>e. 2 \<le> length (fst (snd e))) es"
  have "list_all2 (built_for a w sch ua) ?pm ?fes"
    by (rule process_movies_built)
  then have "list_all2 (built_for a w sch ua) (filter (\<lambda>m. Title m = t) ?pm)
      (filter (\<lambda>e. fst e = t) ?fes)"
    by (rule list_all2_filter) (simp add: built_for_fields)
  then have "length (filter (\<lambda>m. Title m = t) ?pm) = length (filter (\<lambda>e. fst e = t) ?fes)"
    by (rule list_all2_lengthD)
  also have "filter (\<lambda>e. fst e = t) ?fes = filter (\<lambda>e. fst e = t \<and> 2 \<le> length (fst (snd e))) es"
    by (simp add: conj_commute)
  also have "length \<dots> = (case map_of es t of None \<Rightarrow> 0 | Some d \<Rightarrow> if 2 \<le> length (fst d) then 1 else 0)"
    using assms by (rule length_filter_key)
  finally show ?thesis .
qed

lemma process_movies_member:
  assumes "distinct (map fst es)" and "m \<in> set (fst (process_movies a w sch ua es tr))"
  shows "\<exists>d. map_of es (Title m) = Some d \<and> 2 \<le> length (fst d)
            \<and> built_for a w sch ua m (Title m, d)"
proof -
  have la: "list_all2 (built_for a w sch ua) (fst (process_movies a w sch ua es tr))
      (filter (\<lambda>e. 2 \<le> length (fst (snd e))) es)"
    by (rule process_movies_built)
  from list_all2_member [OF la assms(2)] obtain e where
    e: "e \<in> set (filter (\<lambda>e. 2 \<le> length (fst (snd e))) es)" "built_for a w sch ua m e"
    by (rule bexE)
  then have t: "Title m = fst e" by (simp add: built_for_fields)
  from e(1) have "(fst e, snd e) \<in> set es" by simp
  with assms(1) have "map_of es (fst e) = Some (snd e)" by (rule map_of_is_SomeI)
  with e t show ?thesis by simp
qed

lemma length_filter_sort_Slice:
  "length (filter P (sort_Slice lt xs)) = length (filter P xs)"
proof -
  have "mset (filter P (sort_Slice lt xs)) = mset (filter P xs)"
    by (simp add: mset_sort_Slice)
  then show ?thesis by (rule mset_eq_length)
qed

lemma FindCommonMovies_output:
  assumes ne: "usernames \<noteq> []"
    and profiles: "\<forall>u \<in> set usernames. \<not> isl (GetUserAvatar w u)"
    and watchlists: "\<forall>u \<in> set usernames. \<not> isl (GetWatchlist w u)"
  obtains out tr ua es where
    "FindCommonMovies a w sch usernames = (Inr out, tr)"
    "out = sort_Slice movie_less (fst (process_movies a w sch ua es []))"
    "tr = snd (process_movies a w sch ua es [])"
    "\<forall>t. length (filter (\<lambda>m. Title m = t) out) =
           (if 2 \<le> length (watchers w usernames t) then 1 else 0)"
    "\<forall>m \<in> set out. \<exists>d. 2 \<le> length (fst d)
        \<and> length (fst d) = length (watchers w usernames (Title m))
        \<and> built_for a w sch ua m (Title m, d)"
proof (rule FindCommonMovies_ok [OF ne profiles watchlists, of a sch])
  fix ua sd
  assume ua: "validate_users w usernames [] = Inr ua"
    and sd: "distinct (map fst sd)"
      "\<forall>u. map_of sd u = (if u \<in> set usernames then Some (projr (GetWatchlist w u)) else None)"
    and res: "FindCommonMovies a w sch usernames =
       (Inr (sort_Slice movie_less
              (fst (process_movies a w sch ua
                      (range_map (counts_rank sch) (count_movies sch sd)) []))),
        snd (process_movies a w sch ua (range_map (counts_rank sch) (count_movies sch sd)) []))"
  let ?es = "range_map (counts_rank sch) (count_movies sch sd)"
  let ?pm = "fst (process_movies a w sch ua ?es [])"
  let ?out = "sort_Slice movie_less ?pm"
  have des: "distinct (map fst ?es)"
    by (simp add: distinct_range_map distinct_count_movies)
  have dw: "\<forall>entry \<in> set sd. distinct (map fst (snd entry))"
    using sd(2) watchlists sd(1) by (rule scraped_watchlists_distinct)
  have len: "length (contributors (range_map (users_rank sch) sd) t) = length (watchers w usernames t)"
    for t using sd(2) watchlists sd(1) by (rule length_contributors)
  have mo: "map_of ?es t =
     (if contributors (range_map (users_rank sch) sd) t = [] then None
      else Some (contributors (range_map (users_rank sch) sd) t,
                 the (first_link (range_map (users_rank sch) sd) t)))" for t
    using dw by (simp add: map_of_range_map distinct_count_movies map_of_count_movies)
  have c: "\<forall>t. length (filter (\<lambda>m. Title m = t) ?out) =
           (if 2 \<le> length (watchers w usernames t) then 1 else 0)"
  proof
    fix t
    have "length (filter (\<lambda>m. Title m = t) ?out) = length (filter (\<lambda>m. Title m = t) ?pm)"
      by (rule length_filter_sort_Slice)
    also have "\<dots> = (case map_of ?es t of None \<Rightarrow> 0
                      | Some d \<Rightarrow> if 2 \<le> length (fst d) then 1 else 0)"
      using des by (rule process_movies_count)
    also have "\<dots> = (if 2 \<le> length (watchers w usernames t) then 1 else 0)"
      using len [of t] by (auto simp: mo)
    finally show "length (filter (\<lambda>m. Title m = t) ?out) =
           (if 2 \<le> length (watchers w usernames t) then 1 else 0)" .
  qed
  have m: "\<forall>m \<in> set ?out. \<exists>d. 2 \<le> length (fst d)
        \<and> length (fst d) = length (watchers w usernames (Title m))
        \<and> built_for a w sch ua m (Title m, d)"
  proof
    fix m assume "m \<in> set ?out"
    then have "m \<in> set ?pm" by (simp add: set_sort_Slice)
    with process_movies_member [OF des] obtain d where
      d: "map_of ?es (Title m) = Some d" "2 \<le> length (fst d)"
        "built_for a w sch ua m (Title m, d)"
      by blast
    from d(1) have "fst d = contributors (range_map (users_rank sch) sd) (Title m)"
      by (auto simp: mo split: if_splits)
    with len [of "Title m"] d show "\<exists>d. 2 \<le> length (fst d)
        \<and> length (fst d) = length (watchers w usernames (Title m))
        \<and> built_for a w sch ua m (Title m, d)"
      by (intro exI [of _ d]) simp
  qed
  from that [OF res refl refl c m] show thesis .
qed

section \<open>Counting, ranking and errors of a request\<close>

lemma demo_profiles: "\<forall>u \<in> set demo_usernames. \<not> isl (GetUserAvatar demo_world u)"
  by code_simp

lemma demo_watchlists: "\<forall>u \<in> set demo_usernames. \<not> isl (GetWatchlist demo_world u)"
  by code_simp

lemma demo_nonempty: "demo_usernames \<noteq> []"
  by (simp add: demo_usernames_def)

lemma demo_watchers:
  "watchers demo_world demo_usernames ''Dune (2021)'' = [''alice'', ''bob'']"
  "watchers demo_world demo_usernames ''Arrival (2016)'' = [''alice'', ''bob'', ''carol'']"
  "watchers demo_world demo_usernames ''Alien (1979)'' = []"
  by code_simp+

text \<open>
  C1.  When the profiles and the watchlists of a request are all fetched, the request succeeds;
  a title that fewer than two distinct usernames contribute is the title of no record
  returned, and a title that at least two contribute is the title of exactly one record, whose
  \<^verbatim>\<open>Count\<close> is the number of its distinct contributors.  This holds for every order of
  arrival and of iteration.
\<close>

theorem common_titles_counted:
  assumes "usernames \<noteq> []"
    and "\<forall>u \<in> set usernames. \<not> isl (GetUserAvatar w u)"
    and "\<forall>u \<in> set usernames. \<not> isl (GetWatchlist w u)"
  shows "\<exists>out tr. FindCommonMovies a w sch usernames = (Inr out, tr)
     \<and> (\<forall>t. length (watchers w usernames t) < 2 \<longrightarrow> t \<notin> Title ` set out)
     \<and> (\<forall>t. 2 \<le> length (watchers w usernames t) \<longrightarrow>
            (\<exists>m. filter (\<lambda>m. Title m = t) out = [m]
                 \<and> Count m = int (length (watchers w usernames t))))"
proof (rule FindCommonMovies_output [OF assms, of a sch])
  fix out tr ua es
  assume res: "FindCommonMovies a w sch usernames = (Inr out, tr)"
    and c: "\<forall>t. length (filter (\<lambda>m. Title m = t) out) =
           (if 2 \<le> length (watchers w usernames t) then 1 else 0)"
    and b: "\<forall>m \<in> set out. \<exists>d. 2 \<le> length (fst d)
        \<and> length (fst d) = length (watchers w usernames (Title m))
        \<and> built_for a w sch ua m (Title m, d)"
  have lo: "t \<notin> Title ` set out" if "length (watchers w usernames t) < 2" for t
  proof
    assume "t \<in> Title ` set out"
    then obtain m where "m \<in> set out" "Title m = t" by (auto simp: image_iff)
    then have "filter (\<lambda>m. Title m = t) out \<noteq> []"
      by (auto simp: filter_empty_conv)
    moreover from c that have "length (filter (\<lambda>m. Title m = t) out) = 0" by simp
    ultimately show False by simp
  qed
  have hi: "\<exists>m. filter (\<lambda>m. Title m = t) out = [m]
                 \<and> Count m = int (length (watchers w usernames t))"
    if "2 \<le> length (watchers w usernames t)" for t
  proof -
    from c that have "length (filter (\<lambda>m. Title m = t) out) = 1" by simp
    then obtain m where m: "filter (\<lambda>m. Title m = t) out = [m]"
      by (cases "filter (\<lambda>m. Title m = t) out") auto
    then have "m \<in> set (filter (\<lambda>m. Title m = t) out)" by simp
    then have mo: "m \<in> set out" and t: "Title m = t" by simp_all
    from bspec [OF b mo] obtain d where "length (fst d) = length (watchers w usernames (Title m))"
      "built_for a w sch ua m (Title m, d)" by blast
    then have "Count m = int (length (watchers w usernames t))"
      using t by (simp add: built_for_fields)
    with m show ?thesis by (intro exI [of _ m]) simp
  qed
  from res lo hi show ?thesis by (intro exI [of _ out] exI [of _ tr]) simp
qed

theorem common_titles_counted_witness:
  "\<exists>out tr. FindCommonMovies demo_app demo_world demo_schedule demo_usernames = (Inr out, tr)
     \<and> ''Alien (1979)'' \<notin> Title ` set out
     \<and> (\<exists>m. filter (\<lambda>m. Title m = ''Dune (2021)'') out = [m] \<and> Count m = 2)
     \<and> (\<exists>m. filter (\<lambda>m. Title m = ''Arrival (2016)'') out = [m] \<and> Count m = 3)"
proof -
  from common_titles_counted [OF demo_nonempty demo_profiles demo_watchlists,
      of demo_app demo_schedule]
  obtain out tr where
    res: "FindCommonMovies demo_app demo_world demo_schedule demo_usernames = (Inr out, tr)"
    and lo: "\<forall>t. length (watchers demo_world demo_usernames t) < 2 \<longrightarrow> t \<notin> Title ` set out"
    and hi: "\<forall>t. 2 \<le> length (watchers demo_world demo_usernames t) \<longrightarrow>
            (\<exists>m. filter (\<lambda>m. Title m = t) out = [m]
                 \<and> Count m = int (length (watchers demo_world demo_usernames t)))"
    by blast
  from lo [rule_format, of "''Alien (1979)''"] have "''Alien (1979)'' \<notin> Title ` set out"
    by (simp add: demo_watchers)
  moreover from hi [rule_format, of "''Dune (2021)''"]
  have "\<exists>m. filter (\<lambda>m. Title m = ''Dune (2021)'') out = [m] \<and> Count m = 2"
    by (simp add: demo_watchers)
  moreover from hi [rule_format, of "''Arrival (2016)''"]
  have "\<exists>m. filter (\<lambda>m. Title m = ''Arrival (2016)'') out = [m] \<and> Count m = 3"
    by (simp add: demo_watchers)
  ultimately show ?thesis using res by (intro exI [of _ out] exI [of _ tr]) simp
qed

text \<open>
  C10.  A request with no username is answered with the error \<^verbatim>\<open>no usernames provided\<close>
  and with no list of records; nothing is fetched.
\<close>

theorem no_usernames_is_an_error:
  "FindCommonMovies a w sch [] = (Inl ''no usernames provided'', [])"
  by (simp add: FindCommonMovies_def)

lemma FindCommonMovies_sorted:
  assumes "FindCommonMovies a w sch usernames = (Inr out, tr)"
  shows "sorted_wrt (\<lambda>mi mj. \<not> movie_less mj mi) out"
proof -
  from assms obtain pm where "out = sort_Slice movie_less pm"
    by (auto simp: FindCommonMovies_def Let_def case_prod_beta split: if_splits sum.splits)
  then show ?thesis by (simp add: sorted_sort_Slice)
qed

lemma demo_result:
  "FindCommonMovies demo_app demo_world demo_schedule demo_usernames = (Inr demo_movies, [])"
  by code_simp

text \<open>
  C3.  In the list a request returns, a record that comes before another has the greater
  \<^verbatim>\<open>Count\<close>, or the same \<^verbatim>\<open>Count\<close> and a \<^verbatim>\<open>Rating\<close> that is not smaller.
\<close>

theorem result_is_ranked:
  assumes "FindCommonMovies a w sch usernames = (Inr out, tr)" and "i < j" and "j < length out"
  shows "Count (out ! i) > Count (out ! j)
     \<or> (Count (out ! i) = Count (out ! j) \<and> Rating (out ! i) \<ge> Rating (out ! j))"
proof -
  have "sorted_wrt (\<lambda>mi mj. \<not> movie_less mj mi) out"
    using assms(1) by (rule FindCommonMovies_sorted)
  with assms(2,3) have "\<not> movie_less (out ! j) (out ! i)"
    by (simp add: sorted_wrt_iff_nth_less)
  then show ?thesis
    by (simp add: movie_less_def split: if_splits)
qed

theorem result_is_ranked_witness:
  "FindCommonMovies demo_app demo_world demo_schedule demo_usernames = (Inr demo_movies, [])
     \<and> (0::nat) < 1 \<and> 1 < length demo_movies
     \<and> (Count (demo_movies ! 0) > Count (demo_movies ! 1)
         \<or> (Count (demo_movies ! 0) = Count (demo_movies ! 1)
             \<and> Rating (demo_movies ! 0) \<ge> Rating (demo_movies ! 1)))"
proof -
  have len: "1 < length demo_movies" by (simp add: demo_movies_def)
  have "(0::nat) < 1" by simp
  from result_is_ranked [OF demo_result this len] demo_result len show ?thesis by simp
qed

text \<open>
  C8.  In the map the intersection builds from a map of watchlists, the contributors of a
  title are listed without repetition, they are the users whose watchlist holds the title, as
  many as there are such users, in the order the users were visited; and the link of the title
  is the one it has in the first of these watchlists, whatever link it has in the others.
\<close>

theorem merged_contributors_and_link:
  assumes "distinct (map fst scrapedData)"
    and "\<forall>entry \<in> set scrapedData. distinct (map fst (snd entry))"
    and "map_of (count_movies sch scrapedData) t = Some (users, url)"
  shows "distinct users
     \<and> set users = {u. \<exists>watchlist. map_of scrapedData u = Some watchlist \<and> map_of watchlist t \<noteq> None}
     \<and> length users =
         card {u. \<exists>watchlist. map_of scrapedData u = Some watchlist \<and> map_of watchlist t \<noteq> None}
     \<and> users = contributors (range_map (users_rank sch) scrapedData) t
     \<and> first_link (range_map (users_rank sch) scrapedData) t = Some url"
proof -
  let ?vs = "range_map (users_rank sch) scrapedData"
  let ?S = "{u. \<exists>watchlist. map_of scrapedData u = Some watchlist \<and> map_of watchlist t \<noteq> None}"
  from assms(2,3) have ne: "contributors ?vs t \<noteq> []"
    and users: "users = contributors ?vs t"
    and url: "url = the (first_link ?vs t)"
    by (auto simp: map_of_count_movies split: if_splits)
  have dv: "distinct (map fst ?vs)" using assms(1) by (rule distinct_range_map)
  then have d: "distinct users"
    unfolding users contributors_def by (rule distinct_map_filter)
  have s: "set users = ?S"
  proof (intro set_eqI iffI)
    fix u assume "u \<in> set users"
    then obtain wl where "(u, wl) \<in> set scrapedData" "map_of wl t \<noteq> None"
      by (auto simp: users contributors_def has_title_def set_range_map)
    with assms(1) show "u \<in> ?S" by auto
  next
    fix u assume "u \<in> ?S"
    then obtain wl where "map_of scrapedData u = Some wl" "map_of wl t \<noteq> None" by blast
    then have "(u, wl) \<in> set scrapedData" "has_title t (u, wl)"
      by (auto simp: has_title_def dest: map_of_SomeD)
    then show "u \<in> set users"
      by (force simp: users contributors_def set_range_map)
  qed
  from ne obtain entry rest where f: "filter (has_title t) ?vs = entry # rest"
    by (cases "filter (has_title t) ?vs") (auto simp: contributors_def)
  then have "entry \<in> set (filter (has_title t) ?vs)" by simp
  then have "map_of (snd entry) t \<noteq> None" by (simp add: has_title_def)
  with f have "first_link ?vs t \<noteq> None" by (simp add: first_link_def)
  with url have l: "first_link ?vs t = Some url" by auto
  from d s have "length users = card ?S" by (metis distinct_card)
  with d s users l show ?thesis by simp
qed

theorem merged_contributors_and_link_witness:
  "distinct (map fst demo_scraped)
   \<and> list_all (\<lambda>entry. distinct (map fst (snd entry))) demo_scraped
   \<and> map_of (count_movies demo_schedule demo_scraped) ''Arrival''
       = Some ([''bob'', ''alice''], ''/bob/arrival'')
   \<and> distinct [''bob'', ''alice'']
   \<and> set [''bob'', ''alice''] = {u. \<exists>watchlist. map_of demo_scraped u = Some watchlist
                                  \<and> map_of watchlist ''Arrival'' \<noteq> None}
   \<and> length [''bob'', ''alice''] = card {u. \<exists>watchlist. map_of demo_scraped u = Some watchlist
                                  \<and> map_of watchlist ''Arrival'' \<noteq> None}
   \<and> first_link (range_map (users_rank demo_schedule) demo_scraped) ''Arrival''
       = Some ''/bob/arrival''"
proof -
  have 1: "distinct (map fst demo_scraped)" by code_simp
  have 2: "\<forall>entry \<in> set demo_scraped. distinct (map fst (snd entry))" by code_simp
  have 3: "map_of (count_movies demo_schedule demo_scraped) ''Arrival''
       = Some ([''bob'', ''alice''], ''/bob/arrival'')" by code_simp
  from merged_contributors_and_link [OF 1 2 3] 1 2 3 show ?thesis
    unfolding list_all_iff by blast
qed

lemma sublist_quoted_profile_error: "sublist (quoted v) (profile_error v)"
  unfolding profile_error_def by (rule sublist_appendI)

lemma sublist_quoted_watchlist_error: "sublist (quoted v) (watchlist_error v)"
  unfolding watchlist_error_def by (rule sublist_appendI)

lemma GetWatchlist_empty:
  "extract_movies (posters (watchlist_pages w u)) = [] \<Longrightarrow> isl (GetWatchlist w u)"
  by (simp add: GetWatchlist_def Let_def split: option.splits)

lemma FindCommonMovies_profile_fails:
  assumes "find (\<lambda>u. isl (GetUserAvatar w u)) usernames = Some p"
  shows "FindCommonMovies a w sch usernames = (Inl (profile_error p), [])"
proof -
  from assms have "usernames \<noteq> []" by auto
  with validate_users_fail [OF assms, of "[]"] show ?thesis
    by (simp add: FindCommonMovies_def)
qed

lemma FindCommonMovies_watchlist_fails:
  assumes "find (\<lambda>u. isl (GetUserAvatar w u)) usernames = None"
    and "find (\<lambda>u. isl (GetWatchlist w u)) (arrive (arrival_rank sch) usernames) = Some v"
  shows "FindCommonMovies a w sch usernames = (Inl (watchlist_error v), [])"
proof -
  from assms(2) have "arrive (arrival_rank sch) usernames \<noteq> []" by auto
  then have ne: "usernames \<noteq> []" by (auto simp: arrive_def)
  from assms(1) have "\<forall>u \<in> set usernames. \<not> isl (GetUserAvatar w u)"
    by (simp add: find_None_iff)
  from validate_users_ok [OF this] obtain ua where ua: "validate_users w usernames [] = Inr ua"
    by blast
  have arr: "arrive (arrival_rank sch) (map (\<lambda>user. (user, GetWatchlist w user)) usernames)
      = map (\<lambda>u. (u, GetWatchlist w u)) (arrive (arrival_rank sch) usernames)"
    by (rule arrive_map)
  from process_results_fail [OF assms(2), of "[]"] ne ua show ?thesis
    by (simp add: FindCommonMovies_def arr)
qed

text \<open>
  C2, as the code has it.  When a username of the request fails profile validation or
  watchlist fetching, or has a watchlist from which nothing is extracted, the request returns an
  error and no record, and the message names one username that failed: the first, in the order
  of the request, whose profile fails; when every profile is valid, the one whose failed
  watchlist result is received first.
\<close>

theorem first_failure_is_reported:
  assumes "u \<in> set usernames"
    and "isl (GetUserAvatar w u) \<or> isl (GetWatchlist w u)
         \<or> extract_movies (posters (watchlist_pages w u)) = []"
  shows "\<exists>v msg. FindCommonMovies a w sch usernames = (Inl msg, [])
     \<and> v \<in> set usernames \<and> sublist (quoted v) msg
     \<and> (case find (\<lambda>u. isl (GetUserAvatar w u)) usernames of
          Some p \<Rightarrow> v = p \<and> msg = profile_error p
        | None \<Rightarrow>
            find (\<lambda>u. isl (GetWatchlist w u)) (arrive (arrival_rank sch) usernames) = Some v
            \<and> msg = watchlist_error v)"
proof (cases "find (\<lambda>u. isl (GetUserAvatar w u)) usernames")
  case (Some p)
  then have "p \<in> set usernames"
    by (auto simp: find_Some_iff)
  with Some FindCommonMovies_profile_fails [OF Some, of a sch] show ?thesis
    by (intro exI [of _ p] exI [of _ "profile_error p"])
      (simp add: sublist_quoted_profile_error)
next
  case None
  then have "\<not> isl (GetUserAvatar w u)"
    using assms(1) by (simp add: find_None_iff)
  with assms(2) have "isl (GetWatchlist w u)"
    by (auto dest: GetWatchlist_empty)
  moreover have "u \<in> set (arrive (arrival_rank sch) usernames)"
    using assms(1) by (simp add: set_arrive)
  ultimately have "find (\<lambda>u. isl (GetWatchlist w u)) (arrive (arrival_rank sch) usernames) \<noteq> None"
    by (auto simp: find_None_iff)
  then obtain v where
    v: "find (\<lambda>u. isl (GetWatchlist w u)) (arrive (arrival_rank sch) usernames) = Some v"
    by auto
  then have "v \<in> set (arrive (arrival_rank sch) usernames)"
    by (auto simp: find_Some_iff)
  then have "v \<in> set usernames" by (simp add: set_arrive)
  with None v FindCommonMovies_watchlist_fails [OF None v, of a] show ?thesis
    by (intro exI [of _ v] exI [of _ "watchlist_error v"])
      (simp add: sublist_quoted_watchlist_error)
qed

theorem first_failure_is_reported_witness:
  "''bob'' \<in> set demo_usernames
   \<and> extract_movies (posters (watchlist_pages empty_watchlist_world ''bob'')) = []
   \<and> FindCommonMovies demo_app empty_watchlist_world demo_schedule demo_usernames
       = (Inl (watchlist_error ''bob''), [])
   \<and> sublist (quoted ''bob'') (watchlist_error ''bob'')"
proof -
  have 1: "''bob'' \<in> set demo_usernames" by code_simp
  have 2: "extract_movies (posters (watchlist_pages empty_watchlist_world ''bob'')) = []"
    by code_simp
  have 3: "find (\<lambda>u. isl (GetUserAvatar empty_watchlist_world u)) demo_usernames = None"
    by code_simp
  have 4: "find (\<lambda>u. isl (GetWatchlist empty_watchlist_world u))
      (arrive (arrival_rank demo_schedule) demo_usernames) = Some ''bob''"
    by code_simp
  from first_failure_is_reported [OF 1 disjI2 [OF disjI2 [OF 2]], of demo_app demo_schedule]
  show ?thesis using 1 2 by (auto simp: 3 4)
qed

text \<open>
  C2, as it is stated, fails when two usernames fail: the message names the first only.
\<close>

theorem only_first_failure_named_counterexample:
  "''zed'' \<in> set [''amy'', ''zed''] \<and> isl (GetUserAvatar private_world ''zed'')
   \<and> FindCommonMovies demo_app private_world demo_schedule [''amy'', ''zed'']
       = (Inl (profile_error ''amy''), [])
   \<and> \<not> sublist ''zed'' (profile_error ''amy'')"
  by code_simp

section \<open>The variants of a title\<close>

lemma ReplaceAll_char: "ReplaceAll s [c] new = rep c new s"
  by (induction s) (auto simp: rep_def)

lemma rep_simps [simp]:
  "rep c new [] = []"
  "rep c new (x # s) = (if x = c then new else [x]) @ rep c new s"
  "rep c new (s @ t) = rep c new s @ rep c new t"
  by (simp_all add: rep_def)

lemma rep_notin: "c \<notin> set t \<Longrightarrow> rep c new t = t"
  by (induction t) auto

lemma rep_commute:
  "c1 \<noteq> c2 \<Longrightarrow> c1 \<notin> set n2 \<Longrightarrow> c2 \<notin> set n1 \<Longrightarrow>
   rep c1 n1 (rep c2 n2 s) = rep c2 n2 (rep c1 n1 s)"
  by (induction s) (auto simp: rep_notin)

lemma fold_commonReplacements:
  "fold (\<lambda>(old, new) altTitle. ReplaceAll altTitle old new) commonReplacements s
     = concat (map alt_char s)"
  by (induction s) (auto simp: commonReplacements_def ReplaceAll_char alt_char_def)

lemma replacements_commute:
  assumes "x \<in> set commonReplacements" "y \<in> set commonReplacements"
  shows "(\<lambda>(old, new) altTitle. ReplaceAll altTitle old new) x
           \<circ> (\<lambda>(old, new) altTitle. ReplaceAll altTitle old new) y
       = (\<lambda>(old, new) altTitle. ReplaceAll altTitle old new) y
           \<circ> (\<lambda>(old, new) altTitle. ReplaceAll altTitle old new) x"
  using assms
  by (auto simp: commonReplacements_def ReplaceAll_char fun_eq_iff rep_commute)

lemma fold_range_commonReplacements:
  "fold (\<lambda>(old, new) altTitle. ReplaceAll altTitle old new) (range_map rank commonReplacements) s
     = concat (map alt_char s)"
proof -
  have "fold (\<lambda>(old, new) altTitle. ReplaceAll altTitle old new) (range_map rank commonReplacements)
      = fold (\<lambda>(old, new) altTitle. ReplaceAll altTitle old new) commonReplacements"
    by (rule fold_multiset_equiv) (simp_all add: mset_range_map set_range_map replacements_commute)
  then show ?thesis by (simp add: fold_commonReplacements)
qed



lemma list6:
  assumes "length t = 6"
  obtains a b c d e f where "t = [a, b, c, d, e, f]"
  using assms by (auto simp: numeral_eq_Suc length_Suc_conv)

lemma year_match_suffix:
  assumes "length y = 4" "list_all is_digit y"
  shows "year_match (p @ ''('' @ y @ '')'') = Some y"
    and "year_remove (p @ ''('' @ y @ '')'') = p"
  using assms by (simp_all add: year_match_def year_remove_def Let_def)

lemma year_match_SomeD:
  assumes "year_match s = Some y"
  shows "\<exists>p. s = p @ ''('' @ y @ '')'' \<and> length y = 4 \<and> list_all is_digit y"
proof -
  let ?t = "drop (length s - 6) s"
  from assms have n: "6 \<le> length s" and h: "hd ?t = CHR ''(''" and l: "last ?t = CHR '')''"
    and d: "list_all is_digit (take 4 (tl ?t))" and y: "y = take 4 (tl ?t)"
    by (auto simp: year_match_def Let_def split: if_splits)
  from n have "length ?t = 6" by simp
  then obtain a b c d' e f where t: "?t = [a, b, c, d', e, f]" by (rule list6)
  with h l y have "?t = ''('' @ y @ '')''" by simp
  moreover have "s = take (length s - 6) s @ ?t" by simp
  ultimately have "s = take (length s - 6) s @ ''('' @ y @ '')''" by metis
  moreover from t y d have "length y = 4" "list_all is_digit y" by simp_all
  ultimately show ?thesis by blast
qed

lemma extract_year_suffix:
  assumes "length y = 4" "list_all is_digit y"
  shows "extract_year (p @ ''('' @ y @ '')'') = (y, TrimSpace p)"
  using year_match_suffix [OF assms, of p] by (simp add: extract_year_def)

lemma extract_year_none:
  assumes "\<not> (\<exists>p y. s = p @ ''('' @ y @ '')'' \<and> length y = 4 \<and> list_all is_digit y)"
  shows "extract_year s = ([], s)"
proof (cases "year_match s")
  case None
  then show ?thesis by (simp add: extract_year_def)
next
  case (Some y)
  from year_match_SomeD [OF this] assms show ?thesis by blast
qed

lemma altTitle_of_chars:
  "altTitle_of rank a = collapse_space (TrimSpace (concat (map alt_char a)))"
  by (simp add: altTitle_of_def fold_range_commonReplacements)

lemma strip_special_chars:
  "strip_special a = filter (\<lambda>c. is_digit c \<or> is_alpha c \<or> c = CHR ''_'' \<or> re_space c) a"
  by (simp add: strip_special_def is_word_def disj_assoc)

lemma search_loop_skips:
  "no_candidates w apiKey year i pre searchErr tr = Some (e1, tr1) \<Longrightarrow>
   search_loop w apiKey year i (pre @ rest) searchErr tr
     = search_loop w apiKey year (i + length pre) rest e1 tr1"
proof (induction pre arbitrary: i searchErr tr)
  case Nil
  then show ?case by simp
next
  case (Cons v pre)
  obtain r tr' where a: "search_attempt w apiKey year i v tr = (r, tr')"
    by (cases "search_attempt w apiKey year i v tr")
  show ?case
  proof (cases r)
    case (Inl err)
    with a Cons.prems have "no_candidates w apiKey year (Suc i) pre (Some err) tr' = Some (e1, tr1)"
      by simp
    from Cons.IH [OF this] a Inl show ?thesis by simp
  next
    case (Inr cs)
    with a Cons.prems have cs: "cs = []"
      by (cases cs) simp_all
    with a Inr Cons.prems have "no_candidates w apiKey year (Suc i) pre searchErr tr' = Some (e1, tr1)"
      by simp
    from Cons.IH [OF this] a Inr cs show ?thesis by simp
  qed
qed

lemma search_loop_first_candidate:
  assumes "no_candidates w apiKey year i pre searchErr tr = Some (e1, tr1)"
    and "search_attempt w apiKey year (i + length pre) v tr1 = (Inr (c # cs), tr2)"
  shows "search_loop w apiKey year i (pre @ v # post) searchErr tr = (c, e1, tr2)"
  using search_loop_skips [OF assms(1), of "v # post"] assms(2) by simp

text \<open>
  C4, as the code has it.  Metadata resolution cuts a year in parentheses from the end of the
  title, with the white space around what is left, and keeps the year.  The variants searched
  are, in this order: the title so cut; the title with every byte removed that is not an ASCII
  letter, a digit, the underscore or white space, when that differs from the first; the title
  with \<^verbatim>\<open>&\<close> replaced by \<^verbatim>\<open>and\<close>, the apostrophe and the colon removed, the hyphen replaced by
  a space, trimmed and with each run of white space collapsed to one space, when that differs
  from the first, in whatever order the four replacements are made.  When the variants before
  one have returned no candidate and this one returns some, the loop ends there with the
  identifier of its first candidate, the variants after it are not searched, and the details
  of that identifier are fetched, unless it is 0, the value that stands for no match.
\<close>

theorem search_variants_in_order:
  "(\<forall>p y. title = p @ ''('' @ y @ '')'' \<and> length y = 4 \<and> list_all is_digit y \<longrightarrow>
       extract_year title = (y, TrimSpace p))
   \<and> ((\<nexists>p y. title = p @ ''('' @ y @ '')'' \<and> length y = 4 \<and> list_all is_digit y) \<longrightarrow>
       extract_year title = ([], title))
   \<and> searchVariations rank t =
       (let clean = filter (\<lambda>c. is_digit c \<or> is_alpha c \<or> c = CHR ''_'' \<or> re_space c) t;
            alt = collapse_space (TrimSpace (concat (map alt_char t)))
        in [t] @ (if clean \<noteq> t then [clean] else []) @ (if alt \<noteq> t then [alt] else []))
   \<and> (\<forall>year pre v post e1 tr1 c cs tr2.
         \<not> length (getTMDBAPIKey a w) < 10
         \<and> extract_year title = (year, t)
         \<and> searchVariations rank t = pre @ v # post
         \<and> no_candidates w (getTMDBAPIKey a w) year 0 pre None tr = Some (e1, tr1)
         \<and> search_attempt w (getTMDBAPIKey a w) year (length pre) v tr1 = (Inr (c # cs), tr2)
         \<longrightarrow> search_loop w (getTMDBAPIKey a w) year 0 (searchVariations rank t) None tr
               = (c, e1, tr2)
             \<and> GetTMDBDetails a w rank title tr =
                 (if c = 0 then (Inl (''no movie found for: '' @ title), tr2)
                  else get_details w (getTMDBAPIKey a w) c tr2))"
proof (intro conjI allI impI)
  fix p y
  assume "title = p @ ''('' @ y @ '')'' \<and> length y = 4 \<and> list_all is_digit y"
  then have y: "length y = 4" "list_all is_digit y" and t: "title = p @ ''('' @ y @ '')''"
    by simp_all
  from extract_year_suffix [OF y, of p] t show "extract_year title = (y, TrimSpace p)"
    by simp
next
  assume "\<nexists>p y. title = p @ ''('' @ y @ '')'' \<and> length y = 4 \<and> list_all is_digit y"
  then show "extract_year title = ([], title)"
    by (rule extract_year_none)
next
  show "searchVariations rank t =
       (let clean = filter (\<lambda>c. is_digit c \<or> is_alpha c \<or> c = CHR ''_'' \<or> re_space c) t;
            alt = collapse_space (TrimSpace (concat (map alt_char t)))
        in [t] @ (if clean \<noteq> t then [clean] else []) @ (if alt \<noteq> t then [alt] else []))"
    by (simp add: searchVariations_def Let_def altTitle_of_chars strip_special_chars)
next
  fix year pre v post e1 tr1 c cs tr2
  assume h: "\<not> length (getTMDBAPIKey a w) < 10
         \<and> extract_year title = (year, t)
         \<and> searchVariations rank t = pre @ v # post
         \<and> no_candidates w (getTMDBAPIKey a w) year 0 pre None tr = Some (e1, tr1)
         \<and> search_attempt w (getTMDBAPIKey a w) year (length pre) v tr1 = (Inr (c # cs), tr2)"
  then have "search_loop w (getTMDBAPIKey a w) year 0 (pre @ v # post) None tr = (c, e1, tr2)"
    using search_loop_first_candidate [of w "getTMDBAPIKey a w" year 0 pre None tr e1 tr1 v c cs tr2 post]
    by simp
  with h show l: "search_loop w (getTMDBAPIKey a w) year 0 (searchVariations rank t) None tr
               = (c, e1, tr2)"
    by simp
  from h have "getTMDBAPIKey a w \<noteq> []" by auto
  with h l show "GetTMDBDetails a w rank title tr =
                 (if c = 0 then (Inl (''no movie found for: '' @ title), tr2)
                  else get_details w (getTMDBAPIKey a w) c tr2)"
    by (simp add: GetTMDBDetails_def Let_def)
qed

theorem search_variants_in_order_witness:
  "extract_year ''Dune: Part-Two (2024)'' = (''2024'', TrimSpace ''Dune: Part-Two '')
   \<and> extract_year ''Dune: Part-Two'' = ([], ''Dune: Part-Two'')
   \<and> searchVariations length ''Dune: Part-Two''
       = [''Dune: Part-Two'', ''Dune PartTwo'', ''Dune Part Two'']
   \<and> \<not> length (getTMDBAPIKey demo_app variant_world) < 10
   \<and> no_candidates variant_world ''0123456789abcdef'' ''2024'' 0
         [''Dune: Part-Two'', ''Dune PartTwo''] None []
       = Some (Some ''network error: reset'',
               [Get (searchURL_of ''0123456789abcdef'' ''2024'' ''Dune: Part-Two''), Sleep 250,
                Get (searchURL_of ''0123456789abcdef'' ''2024'' ''Dune PartTwo'')])
   \<and> GetTMDBDetails demo_app variant_world length ''Dune: Part-Two (2024)'' []
       = get_details variant_world ''0123456789abcdef'' 693134
           [Get (searchURL_of ''0123456789abcdef'' ''2024'' ''Dune: Part-Two''), Sleep 250,
            Get (searchURL_of ''0123456789abcdef'' ''2024'' ''Dune PartTwo''), Sleep 250,
            Get (searchURL_of ''0123456789abcdef'' ''2024'' ''Dune Part Two'')]"
proof -
  note inst = search_variants_in_order [of _ _ "''Dune: Part-Two''" demo_app variant_world "[]"]
  have k: "getTMDBAPIKey demo_app variant_world = ''0123456789abcdef''" by code_simp
  have d: "list_all is_digit ''2024''" by code_simp
  from inst [of "''Dune: Part-Two (2024)''" length, THEN conjunct1, rule_format,
      of "''Dune: Part-Two ''" "''2024''"] d
  have 1: "extract_year ''Dune: Part-Two (2024)'' = (''2024'', TrimSpace ''Dune: Part-Two '')"
    by simp
  have n: "\<nexists>p y. ''Dune: Part-Two'' = p @ ''('' @ y @ '')'' \<and> length y = 4 \<and> list_all is_digit y"
  proof
    assume "\<exists>p y. ''Dune: Part-Two'' = p @ ''('' @ y @ '')'' \<and> length y = 4 \<and> list_all is_digit y"
    then obtain p y where "''Dune: Part-Two'' = p @ ''('' @ y @ '')''" by blast
    then have "last ''Dune: Part-Two'' = last (p @ ''('' @ y @ '')'')" by simp
    then show False by simp
  qed
  from inst [of "''Dune: Part-Two''" length, THEN conjunct2, THEN conjunct1] n
  have 2: "extract_year ''Dune: Part-Two'' = ([], ''Dune: Part-Two'')"
    by blast
  have 3: "searchVariations length ''Dune: Part-Two''
       = [''Dune: Part-Two'', ''Dune PartTwo'', ''Dune Part Two'']" by code_simp
  have t: "TrimSpace ''Dune: Part-Two '' = ''Dune: Part-Two''" by code_simp
  have 4: "\<not> length (getTMDBAPIKey demo_app variant_world) < 10" by (simp add: k)
  let ?tr1 = "[Get (searchURL_of ''0123456789abcdef'' ''2024'' ''Dune: Part-Two''), Sleep 250,
                Get (searchURL_of ''0123456789abcdef'' ''2024'' ''Dune PartTwo'')]"
  have 5: "no_candidates variant_world ''0123456789abcdef'' ''2024'' 0
         [''Dune: Part-Two'', ''Dune PartTwo''] None []
       = Some (Some ''network error: reset'', ?tr1)" by code_simp
  let ?tr2 = "?tr1 @ [Sleep 250, Get (searchURL_of ''0123456789abcdef'' ''2024'' ''Dune Part Two'')]"
  have 6: "search_attempt variant_world ''0123456789abcdef'' ''2024''
         (length [''Dune: Part-Two'', ''Dune PartTwo'']) ''Dune Part Two'' ?tr1
       = (Inr (693134 # [438631]), ?tr2)"
    by code_simp
  have v3: "searchVariations length ''Dune: Part-Two''
       = [''Dune: Part-Two'', ''Dune PartTwo''] @ ''Dune Part Two'' # []"
    by (simp add: 3)
  have y1: "extract_year ''Dune: Part-Two (2024)'' = (''2024'', ''Dune: Part-Two'')"
    using 1 by (simp only: t)
  have ante: "\<not> length (getTMDBAPIKey demo_app variant_world) < 10
         \<and> extract_year ''Dune: Part-Two (2024)'' = (''2024'', ''Dune: Part-Two'')
         \<and> searchVariations length ''Dune: Part-Two''
             = [''Dune: Part-Two'', ''Dune PartTwo''] @ ''Dune Part Two'' # []
         \<and> no_candidates variant_world (getTMDBAPIKey demo_app variant_world) ''2024'' 0
               [''Dune: Part-Two'', ''Dune PartTwo''] None []
             = Some (Some ''network error: reset'', ?tr1)
         \<and> search_attempt variant_world (getTMDBAPIKey demo_app variant_world) ''2024''
               (length [''Dune: Part-Two'', ''Dune PartTwo'']) ''Dune Part Two'' ?tr1
             = (Inr (693134 # [438631]), ?tr2)"
    unfolding k by (intro conjI y1 v3 5 6) simp
  from inst [of "''Dune: Part-Two (2024)''" length, THEN conjunct2, THEN conjunct2, THEN conjunct2,
      rule_format, OF ante, THEN conjunct2]
  have 7: "GetTMDBDetails demo_app variant_world length ''Dune: Part-Two (2024)'' []
       = get_details variant_world ''0123456789abcdef'' 693134 ?tr2"
    by (simp add: k)
  from 1 2 3 4 5 7 show ?thesis by (simp only: append_Cons append_Nil simp_thms)
qed

text \<open>
  C4, as it is stated, fails on a title with an underscore: the underscore is not removed, so
  that the second variant the claim describes is not searched.
\<close>

theorem underscore_is_kept_counterexample:
  "searchVariations (\<lambda>k. 0) ''A_B'' = [''A_B'']
   \<and> claimed_variations (\<lambda>k. 0) ''A_B'' = [''A_B'', ''AB'']"
  by code_simp

section \<open>The call that resolves a title\<close>

lemma process_movies_trace:
  "snd (process_movies a w sch ua es tr) = snd (process_movies a w sch ua' es tr)"
  by (induction es arbitrary: tr) (auto simp: case_prod_beta Let_def)

lemma process_movies_append:
  "process_movies a w sch ua (xs @ ys) tr =
     (fst (process_movies a w sch ua xs tr)
        @ fst (process_movies a w sch ua ys (snd (process_movies a w sch ua xs tr))),
      snd (process_movies a w sch ua ys (snd (process_movies a w sch ua xs tr))))"
  by (induction xs arbitrary: tr) (auto simp: case_prod_beta Let_def)

lemma takeWhile_key:
  "distinct (map fst es) \<Longrightarrow> (t, d) \<in> set es \<Longrightarrow>
   \<exists>post. es = takeWhile (\<lambda>entry. fst entry \<noteq> t) es @ (t, d) # post"
proof (induction es)
  case Nil
  then show ?case by simp
next
  case (Cons e es)
  show ?case
  proof (cases "fst e = t")
    case True
    with Cons.prems have "e = (t, d)"
      by (cases e) (auto simp: image_iff)
    with True show ?thesis by simp
  next
    case False
    with Cons.prems have "distinct (map fst es)" "(t, d) \<in> set es" by auto
    from Cons.IH [OF this] False show ?thesis by auto
  qed
qed

lemma process_movies_record:
  assumes "distinct (map fst es)" and "(t, d) \<in> set es" and "2 \<le> length (fst d)"
  shows "make_movie w ua t d
           (fst (GetTMDBDetails a w (replacements_rank sch t) t
                   (snd (process_movies a w sch ua'
                           (takeWhile (\<lambda>entry. fst entry \<noteq> t) es) tr))))
         \<in> set (fst (process_movies a w sch ua es tr))"
proof -
  let ?pre = "takeWhile (\<lambda>entry. fst entry \<noteq> t) es"
  from takeWhile_key [OF assms(1,2)] obtain post where es: "es = ?pre @ (t, d) # post"
    by blast
  have tr: "snd (process_movies a w sch ua ?pre tr) = snd (process_movies a w sch ua' ?pre tr)"
    by (rule process_movies_trace)
  have "make_movie w ua t d
           (fst (GetTMDBDetails a w (replacements_rank sch t) t
                   (snd (process_movies a w sch ua ?pre tr))))
         \<in> set (fst (process_movies a w sch ua (?pre @ (t, d) # post) tr))"
    using assms(3) by (simp add: process_movies_append [of a w sch ua ?pre] case_prod_beta Let_def)
  with es tr show ?thesis by simp
qed

lemma FindCommonMovies_scraped:
  assumes ne: "usernames \<noteq> []"
    and profiles: "\<forall>u \<in> set usernames. \<not> isl (GetUserAvatar w u)"
    and watchlists: "\<forall>u \<in> set usernames. \<not> isl (GetWatchlist w u)"
  obtains ua where
    "distinct (map fst (scraped w sch usernames))"
    "\<forall>u. map_of (scraped w sch usernames) u =
           (if u \<in> set usernames then Some (projr (GetWatchlist w u)) else None)"
    "FindCommonMovies a w sch usernames =
       (Inr (sort_Slice movie_less
              (fst (process_movies a w sch ua (entries w sch usernames) []))),
        snd (process_movies a w sch ua (entries w sch usernames) []))"
proof -
  from validate_users_ok [OF profiles] obtain ua where ua: "validate_users w usernames [] = Inr ua"
    by blast
  let ?arr = "arrive (arrival_rank sch) usernames"
  have "\<forall>u \<in> set ?arr. \<not> isl (GetWatchlist w u)"
    using watchlists by (simp add: set_arrive)
  from process_results_ok [OF this, of "[]"] obtain sd where
    sd: "process_results (map (\<lambda>u. (u, GetWatchlist w u)) ?arr) [] = Inr sd"
      "distinct (map fst sd)"
      "\<forall>u. map_of sd u = (if u \<in> set ?arr then Some (projr (GetWatchlist w u)) else None)"
    by auto
  have arr: "arrive (arrival_rank sch) (map (\<lambda>user. (user, GetWatchlist w user)) usernames)
      = map (\<lambda>u. (u, GetWatchlist w u)) ?arr"
    by (rule arrive_map)
  from sd(1) have s: "scraped w sch usernames = sd"
    by (simp add: scraped_def arr)
  have "FindCommonMovies a w sch usernames =
       (Inr (sort_Slice movie_less
              (fst (process_movies a w sch ua (entries w sch usernames) []))),
        snd (process_movies a w sch ua (entries w sch usernames) []))"
    using ne ua sd(1) by (simp add: FindCommonMovies_def arr Let_def case_prod_beta entries_def s)
  with sd(2,3) s that show thesis
    by (simp add: set_arrive)
qed

lemma FindCommonMovies_resolution:
  assumes ne: "usernames \<noteq> []"
    and profiles: "\<forall>u \<in> set usernames. \<not> isl (GetUserAvatar w u)"
    and watchlists: "\<forall>u \<in> set usernames. \<not> isl (GetWatchlist w u)"
    and two: "2 \<le> length (watchers w usernames t)"
  obtains out tr m ua d where
    "FindCommonMovies a w sch usernames = (Inr out, tr)"
    "filter (\<lambda>m. Title m = t) out = [m]"
    "m = make_movie w ua t d (resolution a w sch usernames t)"
    "length (fst d) = length (watchers w usernames t)"
proof (rule FindCommonMovies_scraped [OF ne profiles watchlists, of sch a])
  fix ua
  let ?sd = "scraped w sch usernames"
  let ?es = "entries w sch usernames"
  let ?pm = "fst (process_movies a w sch ua ?es [])"
  let ?out = "sort_Slice movie_less ?pm"
  assume sd: "distinct (map fst ?sd)"
      "\<forall>u. map_of ?sd u = (if u \<in> set usernames then Some (projr (GetWatchlist w u)) else None)"
    and res: "FindCommonMovies a w sch usernames =
       (Inr ?out, snd (process_movies a w sch ua ?es []))"
  have des: "distinct (map fst ?es)"
    by (simp add: entries_def distinct_range_map distinct_count_movies)
  have dw: "\<forall>entry \<in> set ?sd. distinct (map fst (snd entry))"
    using sd(2) watchlists sd(1) by (rule scraped_watchlists_distinct)
  have len: "length (contributors (range_map (users_rank sch) ?sd) t) = length (watchers w usernames t)"
    using sd(2) watchlists sd(1) by (rule length_contributors)
  have mo: "map_of ?es t =
     (if contributors (range_map (users_rank sch) ?sd) t = [] then None
      else Some (contributors (range_map (users_rank sch) ?sd) t,
                 the (first_link (range_map (users_rank sch) ?sd) t)))"
    using dw by (simp add: entries_def map_of_range_map distinct_count_movies map_of_count_movies)
  from two len have "contributors (range_map (users_rank sch) ?sd) t \<noteq> []" by auto
  with mo obtain d where d: "map_of ?es t = Some d"
    "fst d = contributors (range_map (users_rank sch) ?sd) t"
    by simp
  from d(2) len have ld: "length (fst d) = length (watchers w usernames t)" by simp
  with two have two': "2 \<le> length (fst d)" by simp
  from d(1) have mem: "(t, d) \<in> set ?es" by (rule map_of_SomeD)
  let ?m = "make_movie w ua t d (resolution a w sch usernames t)"
  have "?m \<in> set ?pm"
    unfolding resolution_def trace_before_def
    using des mem two' by (rule process_movies_record)
  then have "?m \<in> set (filter (\<lambda>m. Title m = t) ?out)"
    by (simp add: set_sort_Slice)
  moreover have "length (filter (\<lambda>m. Title m = t) ?out) = 1"
  proof -
    have "length (filter (\<lambda>m. Title m = t) ?out) = length (filter (\<lambda>m. Title m = t) ?pm)"
      by (rule length_filter_sort_Slice)
    also have "\<dots> = (case map_of ?es t of None \<Rightarrow> 0
                      | Some d \<Rightarrow> if 2 \<le> length (fst d) then 1 else 0)"
      using des by (rule process_movies_count)
    also have "\<dots> = 1" using d(1) two' by simp
    finally show ?thesis .
  qed
  ultimately have "filter (\<lambda>m. Title m = t) ?out = [?m]"
    by (cases "filter (\<lambda>m. Title m = t) ?out") auto
  from that [OF res this refl ld] show thesis .
qed

section \<open>Resolution that fails\<close>

lemma placeholder_make_movie: "placeholder_metadata (make_movie w ua t d (Inl err))"
  by (simp add: make_movie_def default_values_def placeholder_metadata_def placeholder_poster_def)

lemma two_answers_profiles:
  "\<forall>u \<in> set demo_usernames. \<not> isl (GetUserAvatar two_answers_world u)"
  by code_simp

lemma two_answers_watchlists:
  "\<forall>u \<in> set demo_usernames. \<not> isl (GetWatchlist two_answers_world u)"
  by code_simp

lemma two_answers_watchers:
  "watchers two_answers_world demo_usernames ''Arrival (2016)'' = [''alice'', ''bob'', ''carol'']"
  "watchers two_answers_world demo_usernames ''Dune (2021)'' = [''alice'', ''bob'']"
  by code_simp+

lemma two_answers_resolution:
  "resolution demo_app two_answers_world demo_schedule demo_usernames ''Dune (2021)''
     = Inr bare_payload"
  "resolution demo_app two_answers_world demo_schedule demo_usernames ''Arrival (2016)''
     = Inl ''no movie found for: Arrival (2016)''"
  by code_simp+

text \<open>
  C6.  A title that at least two usernames contribute, and for which the call of
  \<^verbatim>\<open>GetTMDBDetails\<close> that the request makes returns an error, is neither dropped nor the end
  of the request: the list returned holds exactly one record for it, with its \<^verbatim>\<open>Count\<close> and
  its users, and with the values of the branch \<^verbatim>\<open>err != nil\<close> in the fields of the metadata:
  the rating 0 shown as \<^verbatim>\<open>N/A\<close>, the overview \<^verbatim>\<open>No overview available.\<close>, the runtime 0
  shown as the empty string, the same address of \<^verbatim>\<open>placehold.co\<close> for the poster and the
  backdrop, the director \<^verbatim>\<open>N/A\<close>, and slices of genres and of cast that are empty and not
  nil.
\<close>

theorem failed_resolution_gives_placeholders:
  assumes "usernames \<noteq> []"
    and "\<forall>u \<in> set usernames. \<not> isl (GetUserAvatar w u)"
    and "\<forall>u \<in> set usernames. \<not> isl (GetWatchlist w u)"
    and "2 \<le> length (watchers w usernames t)"
    and "isl (resolution a w sch usernames t)"
  shows "\<exists>out tr m. FindCommonMovies a w sch usernames = (Inr out, tr)
     \<and> filter (\<lambda>m. Title m = t) out = [m]
     \<and> Count m = int (length (watchers w usernames t))
     \<and> length (elems (Users m)) = length (watchers w usernames t)
     \<and> placeholder_metadata m"
proof (rule FindCommonMovies_resolution [OF assms(1-4), of a sch])
  fix out tr m ua d
  assume res: "FindCommonMovies a w sch usernames = (Inr out, tr)"
    and m: "filter (\<lambda>m. Title m = t) out = [m]"
    and eq: "m = make_movie w ua t d (resolution a w sch usernames t)"
    and len: "length (fst d) = length (watchers w usernames t)"
  from assms(5) obtain err where "resolution a w sch usernames t = Inl err"
    by (cases "resolution a w sch usernames t") auto
  with eq have p: "placeholder_metadata m"
    by (simp add: placeholder_make_movie)
  from eq len have c: "Count m = int (length (watchers w usernames t))"
    by simp
  from eq have "length (elems (Users m)) = length (fst d)"
    by (cases "fst d = []") (simp_all add: make_movie_Users)
  with len have u: "length (elems (Users m)) = length (watchers w usernames t)"
    by simp
  from res m c u p show ?thesis
    by (intro exI [of _ out] exI [of _ tr] exI [of _ m] conjI)
qed

theorem failed_resolution_gives_placeholders_witness:
  "demo_usernames \<noteq> []
   \<and> list_all (\<lambda>u. \<not> isl (GetUserAvatar two_answers_world u)) demo_usernames
   \<and> list_all (\<lambda>u. \<not> isl (GetWatchlist two_answers_world u)) demo_usernames
   \<and> 2 \<le> length (watchers two_answers_world demo_usernames ''Arrival (2016)'')
   \<and> resolution demo_app two_answers_world demo_schedule demo_usernames ''Dune (2021)''
       = Inr bare_payload
   \<and> resolution demo_app two_answers_world demo_schedule demo_usernames ''Arrival (2016)''
       = Inl ''no movie found for: Arrival (2016)''
   \<and> (\<exists>out tr m. FindCommonMovies demo_app two_answers_world demo_schedule demo_usernames
                     = (Inr out, tr)
        \<and> filter (\<lambda>m. Title m = ''Arrival (2016)'') out = [m]
        \<and> Count m = 3 \<and> length (elems (Users m)) = 3
        \<and> Rating m = 0 \<and> FormattedRating m = ''N/A''
        \<and> PosterURL m = ''https://placehold.co/500x750/1f1f1f/ffffff?text=No+Poster''
        \<and> BackdropURL m = ''https://placehold.co/500x750/1f1f1f/ffffff?text=No+Poster''
        \<and> Runtime m = 0 \<and> FormattedRuntime m = [] \<and> Overview m = ''No overview available.''
        \<and> Genres m = Slice [] \<and> Cast m = Slice [] \<and> Director m = Person ''N/A'' 0)"
proof -
  have w: "2 \<le> length (watchers two_answers_world demo_usernames ''Arrival (2016)'')"
    by (simp add: two_answers_watchers)
  have f: "isl (resolution demo_app two_answers_world demo_schedule demo_usernames
                  ''Arrival (2016)'')"
    by (simp add: two_answers_resolution)
  from failed_resolution_gives_placeholders
    [OF demo_nonempty two_answers_profiles two_answers_watchlists w f]
  obtain out tr m where
    r: "FindCommonMovies demo_app two_answers_world demo_schedule demo_usernames = (Inr out, tr)"
      "filter (\<lambda>m. Title m = ''Arrival (2016)'') out = [m]"
      "Count m = int (length (watchers two_answers_world demo_usernames ''Arrival (2016)''))"
      "length (elems (Users m))
         = length (watchers two_answers_world demo_usernames ''Arrival (2016)'')"
      "placeholder_metadata m"
    by blast
  from r(3,4) have c: "Count m = 3" "length (elems (Users m)) = 3"
    by (simp_all add: two_answers_watchers)
  from r(5) have p: "Rating m = 0" "FormattedRating m = ''N/A''"
    "PosterURL m = ''https://placehold.co/500x750/1f1f1f/ffffff?text=No+Poster''"
    "BackdropURL m = ''https://placehold.co/500x750/1f1f1f/ffffff?text=No+Poster''"
    "Runtime m = 0" "FormattedRuntime m = []" "Overview m = ''No overview available.''"
    "Genres m = Slice []" "Cast m = Slice []" "Director m = Person ''N/A'' 0"
    by (simp_all add: placeholder_metadata_def)
  from r(1,2) c p
  have "\<exists>out tr m. FindCommonMovies demo_app two_answers_world demo_schedule demo_usernames
                     = (Inr out, tr)
        \<and> filter (\<lambda>m. Title m = ''Arrival (2016)'') out = [m]
        \<and> Count m = 3 \<and> length (elems (Users m)) = 3
        \<and> Rating m = 0 \<and> FormattedRating m = ''N/A''
        \<and> PosterURL m = ''https://placehold.co/500x750/1f1f1f/ffffff?text=No+Poster''
        \<and> BackdropURL m = ''https://placehold.co/500x750/1f1f1f/ffffff?text=No+Poster''
        \<and> Runtime m = 0 \<and> FormattedRuntime m = [] \<and> Overview m = ''No overview available.''
        \<and> Genres m = Slice [] \<and> Cast m = Slice [] \<and> Director m = Person ''N/A'' 0"
    by (intro exI [of _ out] exI [of _ tr] exI [of _ m] conjI)
  with demo_nonempty two_answers_profiles two_answers_watchlists w two_answers_resolution
  show ?thesis
    unfolding list_all_iff by blast
qed

section \<open>Resolution that succeeds\<close>

lemma find_director_find:
  "find_director crew =
     (case find (\<lambda>c. Job c = ''Director'') crew of
        None \<Rightarrow> Person ''N/A'' 0
      | Some c \<Rightarrow> Person (crew_Name c) (crew_ID c))"
  by (induction crew) simp_all

lemma make_movie_resolved:
  "Director (make_movie w ua t d (Inr p)) = find_director (Credits_Crew p)"
  "Cast (make_movie w ua t d (Inr p)) =
     (if Credits_Cast p = [] then NilSlice
      else Slice (map (\<lambda>c. Person (cast_Name c) (cast_ID c)) (take 5 (Credits_Cast p))))"
  "Genres (make_movie w ua t d (Inr p)) =
     (if tmdb_Genres p = [] then NilSlice else Slice (tmdb_Genres p))"
  by (simp_all add: make_movie_def process_tmdb_def zero_Movie_def Let_def fold_append_slice)

lemma FindCommonMovies_resolved:
  assumes "usernames \<noteq> []"
    and "\<forall>u \<in> set usernames. \<not> isl (GetUserAvatar w u)"
    and "\<forall>u \<in> set usernames. \<not> isl (GetWatchlist w u)"
    and "2 \<le> length (watchers w usernames t)"
    and "resolution a w sch usernames t = Inr p"
  shows "\<exists>out tr m. FindCommonMovies a w sch usernames = (Inr out, tr)
     \<and> filter (\<lambda>m. Title m = t) out = [m]
     \<and> Director m = (case find (\<lambda>c. Job c = ''Director'') (Credits_Crew p) of
                       None \<Rightarrow> Person ''N/A'' 0
                     | Some c \<Rightarrow> Person (crew_Name c) (crew_ID c))
     \<and> elems (Cast m) = map (\<lambda>c. Person (cast_Name c) (cast_ID c)) (take 5 (Credits_Cast p))
     \<and> length (elems (Cast m)) \<le> 5
     \<and> elems (Genres m) = tmdb_Genres p
     \<and> (Genres m = NilSlice \<longleftrightarrow> tmdb_Genres p = [])
     \<and> (Cast m = NilSlice \<longleftrightarrow> Credits_Cast p = [])"
proof (rule FindCommonMovies_resolution [OF assms(1-4), of a sch])
  fix out tr m ua d
  assume res: "FindCommonMovies a w sch usernames = (Inr out, tr)"
    and m: "filter (\<lambda>m. Title m = t) out = [m]"
    and "m = make_movie w ua t d (resolution a w sch usernames t)"
  with assms(5) have eq: "m = make_movie w ua t d (Inr p)" by simp
  have 1: "Director m = (case find (\<lambda>c. Job c = ''Director'') (Credits_Crew p) of
                       None \<Rightarrow> Person ''N/A'' 0
                     | Some c \<Rightarrow> Person (crew_Name c) (crew_ID c))"
    unfolding eq by (simp add: make_movie_resolved find_director_find)
  have 2: "elems (Cast m) = map (\<lambda>c. Person (cast_Name c) (cast_ID c)) (take 5 (Credits_Cast p))"
    unfolding eq by (simp add: make_movie_resolved)
  then have 3: "length (elems (Cast m)) \<le> 5" by simp
  have 4: "elems (Genres m) = tmdb_Genres p"
    unfolding eq by (simp add: make_movie_resolved)
  have 5: "Genres m = NilSlice \<longleftrightarrow> tmdb_Genres p = []"
    unfolding eq by (simp add: make_movie_resolved)
  have 6: "Cast m = NilSlice \<longleftrightarrow> Credits_Cast p = []"
    unfolding eq by (simp add: make_movie_resolved)
  from res m 1 2 3 4 5 6 show ?thesis
    by (intro exI [of _ out] exI [of _ tr] exI [of _ m] conjI)
qed

text \<open>
  C7.  The provider answers the search for \<^verbatim>\<open>Dune (2021)\<close> and sends details that have
  neither genres nor crew, and seven members of the cast.  The request succeeds; the record of
  the title has the director \<^verbatim>\<open>N/A\<close> with the identifier 0 and the first five members of the
  cast; its \<^verbatim>\<open>Genres\<close> is the nil slice, which \<^verbatim>\<open>encoding/json\<close> writes as \<^verbatim>\<open>null\<close>, and not
  the empty slice \<^verbatim>\<open>[]string{}\<close> that a title whose resolution fails is given.
\<close>

theorem no_genres_leaves_nil_slice:
  "resolution demo_app two_answers_world demo_schedule demo_usernames ''Dune (2021)''
     = Inr bare_payload
   \<and> tmdb_Genres bare_payload = [] \<and> Credits_Crew bare_payload = []
   \<and> length (Credits_Cast bare_payload) = 7
   \<and> (\<exists>out tr m. FindCommonMovies demo_app two_answers_world demo_schedule demo_usernames
                     = (Inr out, tr)
        \<and> filter (\<lambda>m. Title m = ''Dune (2021)'') out = [m]
        \<and> Genres m = NilSlice \<and> Genres m \<noteq> Slice []
        \<and> Director m = Person ''N/A'' 0
        \<and> elems (Cast m) = [Person ''actor'' 1, Person ''actor'' 2, Person ''actor'' 3,
                             Person ''actor'' 4, Person ''actor'' 5])"
proof -
  have w: "2 \<le> length (watchers two_answers_world demo_usernames ''Dune (2021)'')"
    by (simp add: two_answers_watchers)
  have g: "tmdb_Genres bare_payload = []" "Credits_Crew bare_payload = []"
    "length (Credits_Cast bare_payload) = 7"
    by (simp_all add: bare_payload_def zero_TMDBMovie_def)
  have c: "map (\<lambda>c. Person (cast_Name c) (cast_ID c)) (take 5 (Credits_Cast bare_payload))
      = [Person ''actor'' 1, Person ''actor'' 2, Person ''actor'' 3,
         Person ''actor'' 4, Person ''actor'' 5]"
    by code_simp
  from FindCommonMovies_resolved
    [OF demo_nonempty two_answers_profiles two_answers_watchlists w two_answers_resolution(1)]
  obtain out tr m where
    r: "FindCommonMovies demo_app two_answers_world demo_schedule demo_usernames = (Inr out, tr)"
      "filter (\<lambda>m. Title m = ''Dune (2021)'') out = [m]"
      "Director m = (case find (\<lambda>c. Job c = ''Director'') (Credits_Crew bare_payload) of
                       None \<Rightarrow> Person ''N/A'' 0
                     | Some c \<Rightarrow> Person (crew_Name c) (crew_ID c))"
      "elems (Cast m) = map (\<lambda>c. Person (cast_Name c) (cast_ID c))
                          (take 5 (Credits_Cast bare_payload))"
      "Genres m = NilSlice \<longleftrightarrow> tmdb_Genres bare_payload = []"
    by blast
  from r(5) g(1) have n: "Genres m = NilSlice" "Genres m \<noteq> Slice []" by simp_all
  from r(3) g(2) have d: "Director m = Person ''N/A'' 0" by simp
  from r(4) c have k: "elems (Cast m) = [Person ''actor'' 1, Person ''actor'' 2,
      Person ''actor'' 3, Person ''actor'' 4, Person ''actor'' 5]"
    by simp
  from r(1,2) n d k
  have "\<exists>out tr m. FindCommonMovies demo_app two_answers_world demo_schedule demo_usernames
                     = (Inr out, tr)
        \<and> filter (\<lambda>m. Title m = ''Dune (2021)'') out = [m]
        \<and> Genres m = NilSlice \<and> Genres m \<noteq> Slice []
        \<and> Director m = Person ''N/A'' 0
        \<and> elems (Cast m) = [Person ''actor'' 1, Person ''actor'' 2, Person ''actor'' 3,
                             Person ''actor'' 4, Person ''actor'' 5]"
    by (intro exI [of _ out] exI [of _ tr] exI [of _ m] conjI)
  with two_answers_resolution(1) g show ?thesis by (intro conjI)
qed

section \<open>A key that is too short\<close>

lemma getTMDBAPIKey_configured:
  "configured_key a w \<noteq> [] \<Longrightarrow> getTMDBAPIKey a w = configured_key a w"
  by (auto simp: getTMDBAPIKey_def GetTMDBAPIKey_def configured_key_def Let_def split: if_splits)

lemma getTMDBAPIKey_unconfigured:
  "configured_key a w = [] \<Longrightarrow> getTMDBAPIKey a w = ''YOUR_API_KEY_HERE''"
  by (auto simp: getTMDBAPIKey_def GetTMDBAPIKey_def configured_key_def Let_def split: if_splits)

lemma GetTMDBDetails_short_key:
  "length (getTMDBAPIKey a w) < 10 \<Longrightarrow>
   GetTMDBDetails a w rank t tr = (Inl ''TMDB API key not configured'', tr)"
  by (simp add: GetTMDBDetails_def)

lemma process_movies_short_key:
  "length (getTMDBAPIKey a w) < 10 \<Longrightarrow> snd (process_movies a w sch ua es tr) = tr"
  by (induction es arbitrary: tr)
    (auto simp: GetTMDBDetails_short_key case_prod_beta Let_def)

lemma built_for_short_key:
  assumes "built_for a w sch ua m (t, d)" and "length (getTMDBAPIKey a w) < 10"
  shows "placeholder_metadata m"
proof -
  from assms(1) obtain tr where
    "m = make_movie w ua t d (fst (GetTMDBDetails a w (replacements_rank sch t) t tr))"
    by (auto simp: built_for_def)
  with assms(2) show ?thesis
    by (simp add: GetTMDBDetails_short_key placeholder_make_movie)
qed

lemma GetTMDBDetails_long_key:
  assumes "10 \<le> length (getTMDBAPIKey a w)"
  shows "GetTMDBDetails a w rank t tr \<noteq> (Inl ''TMDB API key not configured'', tr)"
proof -
  from assms have k: "getTMDBAPIKey a w \<noteq> []" "\<not> length (getTMDBAPIKey a w) < 10"
    by auto
  let ?loop = "search_loop w (getTMDBAPIKey a w) (fst (extract_year t)) 0
                 (searchVariations rank (snd (extract_year t))) None tr"
  show ?thesis
  proof (cases "fst ?loop = 0")
    case True
    with k show ?thesis
      by (simp add: GetTMDBDetails_def Let_def case_prod_beta)
  next
    case False
    obtain r tr' where g: "fetch_details w (detailsURL_of (getTMDBAPIKey a w) (fst ?loop))
        (snd (snd ?loop)) = (r, tr')"
      by (cases "fetch_details w (detailsURL_of (getTMDBAPIKey a w) (fst ?loop))
        (snd (snd ?loop))")
    with False k show ?thesis
      by (auto simp: GetTMDBDetails_def Let_def case_prod_beta get_details_def
          split: http_result.splits sum.splits)
  qed
qed

lemma unconfigured_key:
  "configured_key demo_app unconfigured_world = []"
  "getTMDBAPIKey demo_app unconfigured_world = ''YOUR_API_KEY_HERE''"
  by code_simp+

lemma accented_key:
  "utf8_chars (configured_key accented_app demo_world) = 5"
  "length (configured_key accented_app demo_world) = 10"
  by code_simp+

lemma demo_configured_key:
  "configured_key demo_app demo_world \<noteq> []"
  "length (configured_key demo_app demo_world) < 10"
  by code_simp+

text \<open>
  C9.  When an API key is configured, as the runtime value or else as the variable of the
  environment, and it is shorter than 10 bytes, every call of \<^verbatim>\<open>GetTMDBDetails\<close> fails as
  not configured and sends nothing; a request whose profiles and watchlists are fetched
  still succeeds, every record it returns has the placeholder values, and every title that
  at least two usernames contribute is among them.
\<close>

theorem short_key_skips_resolution:
  assumes "configured_key a w \<noteq> []"
    and "length (configured_key a w) < 10"
    and "usernames \<noteq> []"
    and "\<forall>u \<in> set usernames. \<not> isl (GetUserAvatar w u)"
    and "\<forall>u \<in> set usernames. \<not> isl (GetWatchlist w u)"
  shows "(\<forall>rank t tr. GetTMDBDetails a w rank t tr = (Inl ''TMDB API key not configured'', tr))
     \<and> (\<exists>out. FindCommonMovies a w sch usernames = (Inr out, [])
          \<and> (\<forall>m \<in> set out. placeholder_metadata m)
          \<and> (\<forall>t. 2 \<le> length (watchers w usernames t) \<longrightarrow> t \<in> Title ` set out))"
proof (rule FindCommonMovies_output [OF assms(3-5), of a sch])
  fix out tr ua es
  assume res: "FindCommonMovies a w sch usernames = (Inr out, tr)"
    and tr: "tr = snd (process_movies a w sch ua es [])"
    and c: "\<forall>t. length (filter (\<lambda>m. Title m = t) out) =
           (if 2 \<le> length (watchers w usernames t) then 1 else 0)"
    and b: "\<forall>m \<in> set out. \<exists>d. 2 \<le> length (fst d)
        \<and> length (fst d) = length (watchers w usernames (Title m))
        \<and> built_for a w sch ua m (Title m, d)"
  from assms(1,2) have short: "length (getTMDBAPIKey a w) < 10"
    by (simp add: getTMDBAPIKey_configured)
  have k: "\<forall>rank t tr. GetTMDBDetails a w rank t tr = (Inl ''TMDB API key not configured'', tr)"
    using short by (simp add: GetTMDBDetails_short_key)
  from tr short have "tr = []" by (simp add: process_movies_short_key)
  with res have r: "FindCommonMovies a w sch usernames = (Inr out, [])" by simp
  have p: "\<forall>m \<in> set out. placeholder_metadata m"
  proof
    fix m assume "m \<in> set out"
    with b obtain d where "built_for a w sch ua m (Title m, d)" by blast
    then show "placeholder_metadata m" using short by (rule built_for_short_key)
  qed
  have s: "\<forall>t. 2 \<le> length (watchers w usernames t) \<longrightarrow> t \<in> Title ` set out"
  proof (intro allI impI)
    fix t assume "2 \<le> length (watchers w usernames t)"
    with c have "length (filter (\<lambda>m. Title m = t) out) = 1" by simp
    then obtain m where "filter (\<lambda>m. Title m = t) out = [m]"
      by (cases "filter (\<lambda>m. Title m = t) out") auto
    then have "m \<in> set (filter (\<lambda>m. Title m = t) out)" by simp
    then show "t \<in> Title ` set out" by auto
  qed
  from k r p s show ?thesis by (intro conjI exI [of _ out]) simp_all
qed

theorem short_key_skips_resolution_witness:
  "configured_key demo_app demo_world = ''secret'' \<and> demo_usernames \<noteq> []
   \<and> list_all (\<lambda>u. \<not> isl (GetUserAvatar demo_world u)) demo_usernames
   \<and> list_all (\<lambda>u. \<not> isl (GetWatchlist demo_world u)) demo_usernames
   \<and> 2 \<le> length (watchers demo_world demo_usernames ''Dune (2021)'')
   \<and> GetTMDBDetails demo_app demo_world (replacements_rank demo_schedule ''Dune (2021)'')
         ''Dune (2021)'' []
       = (Inl ''TMDB API key not configured'', [])
   \<and> (\<exists>out. FindCommonMovies demo_app demo_world demo_schedule demo_usernames = (Inr out, [])
        \<and> list_all placeholder_metadata out \<and> ''Dune (2021)'' \<in> Title ` set out)"
proof -
  have k: "configured_key demo_app demo_world = ''secret''" by code_simp
  have w: "2 \<le> length (watchers demo_world demo_usernames ''Dune (2021)'')"
    by (simp add: demo_watchers)
  note r = short_key_skips_resolution [OF demo_configured_key demo_nonempty demo_profiles
      demo_watchlists, of demo_schedule]
  from r have 1: "GetTMDBDetails demo_app demo_world
         (replacements_rank demo_schedule ''Dune (2021)'') ''Dune (2021)'' []
       = (Inl ''TMDB API key not configured'', [])" by blast
  from r w have 2: "\<exists>out. FindCommonMovies demo_app demo_world demo_schedule demo_usernames = (Inr out, [])
        \<and> list_all placeholder_metadata out \<and> ''Dune (2021)'' \<in> Title ` set out"
    unfolding list_all_iff by blast
  from k demo_nonempty demo_profiles demo_watchlists w 1 2 show ?thesis
    unfolding list_all_iff by blast
qed

text \<open>
  C9, as it is stated, fails in two states.  A runtime key of five characters that are ten
  bytes in UTF-8 is not too short for the test \<^verbatim>\<open>len(apiKey) < 10\<close>: the search is requested
  with it.  With no key configured at all, the key in force is the placeholder of
  \<^verbatim>\<open>config.go\<close>, which has 17 bytes, and the search is requested with the placeholder.
\<close>

theorem key_length_is_in_bytes_counterexample:
  "utf8_chars (configured_key accented_app demo_world) = 5
   \<and> GetTMDBDetails accented_app demo_world (replacements_rank demo_schedule ''Dune (2021)'')
         ''Dune (2021)'' []
       = (Inl ''no movie found for: Dune (2021)'',
          [Get (''https://api.themoviedb.org/3/search/movie?api_key=''
                 @ configured_key accented_app demo_world @ ''&query=Dune&year=2021'')])
   \<and> configured_key demo_app unconfigured_world = []
   \<and> GetTMDBDetails demo_app unconfigured_world (replacements_rank demo_schedule ''Dune (2021)'')
         ''Dune (2021)'' []
       = (Inl ''no movie found for: Dune (2021)'',
          [Get ''https://api.themoviedb.org/3/search/movie?api_key=YOUR_API_KEY_HERE&query=Dune&year=2021''])"
  by code_simp

section \<open>One search\<close>








lemma is_Get_simps [simp]: "is_Get (Get url)" "\<not> is_Get (Sleep ms)"
  by (simp_all add: is_Get_def)




end
